theory Spec2Isabelle
  imports Complex_Main
begin

section \<open>Data model of the scene generator (gen.py)\<close>

text \<open>
  The generator computes with Python floats. They are idealised here as \<^typ>\<open>real\<close>:
  every arithmetic expression of the source is kept as written, evaluated exactly.
  A point \<open>Pt\<close> is a pair, a rectangle the 4-tuple \<open>(x1, y1, x2, y2)\<close>.
\<close>

type_synonym Pt = "real \<times> real"
type_synonym rect = "real \<times> real \<times> real \<times> real"

text \<open>
  Exceptions are values. \<open>RuntimeError\<close> carries its message; \<open>ValueError\<close> is what the
  built-ins \<open>min\<close> and \<open>max\<close> raise on an empty sequence; \<open>TypeError\<close> is what
  \<open>raise None\<close> would raise.
\<close>

datatype error = RuntimeError string | ValueError | TypeError

text \<open>The values stored in the free-form \<open>attrs\<close> dictionaries of the ground truth.\<close>

datatype attr = AStr string | ANum real | APt Pt | AInt int

record ComponentGT =
  cid :: string
  ctype :: string
  p1 :: Pt
  p2 :: Pt
  orientation :: string
  attrs :: "(string \<times> attr) list"

record MarkerGT =
  mid :: string
  mtype :: string
  center :: Pt
  mattrs :: "(string \<times> attr) list"

section \<open>Geometry helpers\<close>

text \<open>
  Python's \<open>min\<close> and \<open>max\<close> over a list: \<open>ValueError\<close> on the empty list, otherwise a
  left-to-right scan that replaces the current item when the next one is strictly
  smaller (larger).
\<close>

definition py_min :: "real list \<Rightarrow> error + real" where
  "py_min xs = (case xs of [] \<Rightarrow> Inl ValueError
     | x # rest \<Rightarrow> Inr (fold (\<lambda>v m. if v < m then v else m) rest x))"

definition py_max :: "real list \<Rightarrow> error + real" where
  "py_max xs = (case xs of [] \<Rightarrow> Inl ValueError
     | x # rest \<Rightarrow> Inr (fold (\<lambda>v m. if v > m then v else m) rest x))"

text \<open>
  \<open>rect_from_points\<close>: the tuple is built left to right, so the first failing
  \<open>min\<close>/\<open>max\<close> call decides the error.
\<close>

definition rect_from_points :: "Pt list \<Rightarrow> real \<Rightarrow> error + rect" where
  "rect_from_points pts pad =
     (let xs = map fst pts; ys = map snd pts in
      case py_min xs of Inl e \<Rightarrow> Inl e | Inr mnx \<Rightarrow>
     (case py_min ys of Inl e \<Rightarrow> Inl e | Inr mny \<Rightarrow>
     (case py_max xs of Inl e \<Rightarrow> Inl e | Inr mxx \<Rightarrow>
     (case py_max ys of Inl e \<Rightarrow> Inl e | Inr mxy \<Rightarrow>
        Inr (mnx - pad, mny - pad, mxx + pad, mxy + pad)))))"

fun rects_overlap :: "rect \<Rightarrow> rect \<Rightarrow> real \<Rightarrow> bool" where
  "rects_overlap (ax1, ay1, ax2, ay2) (bx1, by1, bx2, by2) pad =
     (\<not> (ax2 + pad < bx1 \<or> bx2 + pad < ax1 \<or> ay2 + pad < by1 \<or> by2 + pad < ay1))"

definition clamp :: "real \<Rightarrow> real \<Rightarrow> real \<Rightarrow> real" where
  "clamp v lo hi = max lo (min hi v)"

subsection \<open>Vocabulary for the overlap test\<close>

text \<open>
  The signed gaps between two rectangles along the two axes, in both orders. A gap is
  positive when the rectangles are apart along that axis and in that order.
\<close>

fun gaps :: "rect \<Rightarrow> rect \<Rightarrow> real list" where
  "gaps (ax1, ay1, ax2, ay2) (bx1, by1, bx2, by2) =
     [bx1 - ax2, ax1 - bx2, by1 - ay2, ay1 - by2]"

definition separated_at_least :: "rect \<Rightarrow> rect \<Rightarrow> real \<Rightarrow> bool" where
  "separated_at_least a b t = list_ex (\<lambda>g. t \<le> g) (gaps a b)"

definition separated_more_than :: "rect \<Rightarrow> rect \<Rightarrow> real \<Rightarrow> bool" where
  "separated_more_than a b t = list_ex (\<lambda>g. t < g) (gaps a b)"

section \<open>The random source\<close>

text \<open>
  The module-level generator of Python's \<open>random\<close> is library code. It is taken as a
  parameter: a tape of draws and the position reached on it. Each call of
  \<open>random.choice\<close> and of \<open>random.uniform\<close> consumes one entry; \<open>picks\<close> gives the
  index chosen by \<open>choice\<close> (reduced modulo the length of the sequence) and \<open>units\<close> the
  value of \<open>random()\<close> that \<open>uniform a b\<close> turns into \<open>a + (b - a) * random()\<close>.
  \<open>choice\<close> is only ever called on the non-empty literal lists of the source.
\<close>

record rng =
  picks :: "nat \<Rightarrow> nat"
  units :: "nat \<Rightarrow> real"
  pos :: nat

definition choice :: "'a list \<Rightarrow> rng \<Rightarrow> 'a \<times> rng" where
  "choice seq g = (seq ! (picks g (pos g) mod length seq), g\<lparr>pos := Suc (pos g)\<rparr>)"

definition uniform :: "real \<Rightarrow> real \<Rightarrow> rng \<Rightarrow> real \<times> rng" where
  "uniform a b g = (a + (b - a) * units g (pos g), g\<lparr>pos := Suc (pos g)\<rparr>)"

section \<open>Drawing instructions\<close>

text \<open>
  Every formatted \<open>\draw\<close>, \<open>\fill\<close> or \<open>\path\<close> string of the source is one constructor
  that carries the values interpolated into the string:
  \<^item> \<open>DrawBipole p1 element label p2\<close>: \<open>\draw (p1) to[element,l_=label] (p2);\<close>
  \<^item> \<open>DrawLine a b\<close>: \<open>\draw (a) -- (b);\<close>
  \<^item> \<open>DrawTransformer c\<close>: \<open>\draw (c) node[transformer] (T1) {};\<close>
  \<^item> \<open>DrawAnchorLead anchor d\<close>: \<open>\draw (T1.anchor) -- ++(d);\<close>
  \<^item> \<open>FillCircle c r\<close>: \<open>\fill[black] (c) circle (r pt);\<close>
  \<^item> \<open>DrawHump a c1 c2 b\<close>: \<open>\draw (a) .. controls (c1) and (c2) .. (b);\<close>
  \<^item> \<open>UseBoundingBox a b\<close>: \<open>\path[use as bounding box] (a) rectangle (b);\<close>
\<close>

datatype tikz =
    DrawBipole Pt string string Pt
  | DrawLine Pt Pt
  | DrawTransformer Pt
  | DrawAnchorLead string Pt
  | FillCircle Pt real
  | DrawHump Pt Pt Pt Pt
  | UseBoundingBox Pt Pt

datatype style = LineWidth real

definition tikz_junction :: "real \<Rightarrow> real \<Rightarrow> real \<Rightarrow> tikz" where
  "tikz_junction x y r_pt = FillCircle (x, y) r_pt"

definition tikz_wire_jump :: "real \<Rightarrow> real \<Rightarrow> real \<Rightarrow> real \<Rightarrow> tikz" where
  "tikz_wire_jump cx cy halfgap hump_h =
     (let x1 = cx - halfgap; x2 = cx + halfgap
      in DrawHump (x1, cy) (x1, cy + hump_h) (x2, cy + hump_h) (x2, cy))"

section \<open>The catalogue\<close>

definition component_specs :: "(string \<times> string \<times> string \<times> string) list" where
  "component_specs =
     [(''AC1'', ''ACSource'', ''sV'', ''AC''),
      (''BAT1'', ''Battery'', ''battery'', ''BAT''),
      (''C1'', ''Capacitor'', ''C'', ''C1''),
      (''D1'', ''Diode'', ''D'', ''D1''),
      (''V1'', ''VoltageSource'', ''V'', ''V1''),
      (''L1'', ''Inductor'', ''L'', ''L1''),
      (''I1'', ''CurrentSource'', ''I'', ''I1''),
      (''SW_ID'', ''IdealSwitch'', ''switch'', ''SW''),
      (''SW_R'', ''RealSwitch'', ''switch'', ''SWr''),
      (''T1'', ''Transformer'', ''transformer'', ''T1''),
      (''R1'', ''Resistor'', ''R'', ''R1'')]"

section \<open>The scene generator\<close>

text \<open>The local constants of \<open>generate_scene_with_leads\<close>.\<close>

definition view_bbox :: rect where "view_bbox = (- 10, - 8, 10, 8)"
definition vx1 :: real where "vx1 = - 10"
definition vy1 :: real where "vy1 = - 8"
definition vx2 :: real where "vx2 = 10"
definition vy2 :: real where "vy2 = 8"
definition margin :: real where "margin = 12 / 10"
definition comp_len_choices :: "real list" where
  "comp_len_choices = [16 / 10, 18 / 10, 2, 22 / 10]"
definition lead_len_choices :: "real list" where
  "lead_len_choices = [8 / 10, 1, 12 / 10]"
definition pad :: real where "pad = 85 / 100"

text \<open>
  The lists the two nested placement functions close over and append to. \<open>markers\<close> is
  only touched after the placement, by the generator itself.
\<close>

record layout =
  comps :: "ComponentGT list"
  cmds :: "tikz list"
  occupied :: "rect list"

text \<open>
  One pass through the body of the loop of \<open>place_two_pin\<close>, up to the overlap test:
  the five draws and the four points computed from them.
\<close>

definition sample_two_pin :: "rng \<Rightarrow> (string \<times> real \<times> Pt \<times> Pt \<times> Pt \<times> Pt) \<times> rng" where
  "sample_two_pin g0 =
     (let (ori, g1) = choice [''h'', ''v''] g0;
          (L, g2) = choice comp_len_choices g1;
          (lead, g3) = choice lead_len_choices g2
      in if ori = ''h'' then
           (let (cx, g4) = uniform (vx1 + margin + (L / 2 + lead)) (vx2 - margin - (L / 2 + lead)) g3;
                (cy, g5) = uniform (vy1 + margin) (vy2 - margin) g4;
                p1 = (cx - L / 2, cy);
                p2 = (cx + L / 2, cy);
                w1 = (fst p1 - lead, cy);
                w2 = (fst p2 + lead, cy)
            in ((ori, lead, p1, p2, w1, w2), g5))
         else
           (let (cx, g4) = uniform (vx1 + margin) (vx2 - margin) g3;
                (cy, g5) = uniform (vy1 + margin + (L / 2 + lead)) (vy2 - margin - (L / 2 + lead)) g4;
                p1 = (cx, cy - L / 2);
                p2 = (cx, cy + L / 2);
                w1 = (cx, snd p1 - lead);
                w2 = (cx, snd p2 + lead)
            in ((ori, lead, p1, p2, w1, w2), g5)))"

text \<open>What a successful two-terminal placement appends to the three lists.\<close>

definition commit_two_pin ::
  "string \<Rightarrow> string \<Rightarrow> string \<Rightarrow> string \<Rightarrow> string \<Rightarrow> real \<Rightarrow> Pt \<Rightarrow> Pt \<Rightarrow> Pt \<Rightarrow> Pt \<Rightarrow> rect
     \<Rightarrow> layout \<Rightarrow> layout" where
  "commit_two_pin cid' ctype' element label ori lead q1 q2 w1 w2 bb st =
     \<lparr>comps = comps st @
        [\<lparr>cid = cid', ctype = ctype', p1 = q1, p2 = q2, orientation = ori,
          attrs = [(''label'', AStr label), (''element'', AStr element),
                   (''lead_len'', ANum lead), (''lead_end_1'', APt w1),
                   (''lead_end_2'', APt w2)]\<rparr>],
      cmds = cmds st @
        [DrawBipole q1 element label q2, DrawLine w1 q1, DrawLine q2 w2],
      occupied = occupied st @ [bb]\<rparr>"

text \<open>
  \<open>place_two_pin\<close>: the \<open>for\<close> loop over \<open>range(4000)\<close> is a recursion on the number of
  passes left; falling out of the loop raises the \<open>RuntimeError\<close>.
\<close>

fun place_two_pin_loop ::
  "nat \<Rightarrow> string \<Rightarrow> string \<Rightarrow> string \<Rightarrow> string \<Rightarrow> layout \<Rightarrow> rng \<Rightarrow> (error + layout) \<times> rng" where
  "place_two_pin_loop 0 cid' ctype' element label st g =
     (Inl (RuntimeError (''Could not place '' @ cid' @
        '' without overlap. Consider enlarging view_bbox or reducing pad.'')), g)"
| "place_two_pin_loop (Suc n) cid' ctype' element label st g =
     (let ((ori, lead, q1, q2, w1, w2), g') = sample_two_pin g
      in case rect_from_points [q1, q2, w1, w2] pad of
           Inl e \<Rightarrow> (Inl e, g')
         | Inr bb \<Rightarrow>
            if list_ex (\<lambda>old. rects_overlap bb old (15 / 100)) (occupied st)
            then place_two_pin_loop n cid' ctype' element label st g'
            else (Inr (commit_two_pin cid' ctype' element label ori lead q1 q2 w1 w2 bb st), g'))"

definition place_two_pin ::
  "string \<Rightarrow> string \<Rightarrow> string \<Rightarrow> string \<Rightarrow> layout \<Rightarrow> rng \<Rightarrow> (error + layout) \<times> rng" where
  "place_two_pin = place_two_pin_loop 4000"

definition commit_transformer :: "real \<Rightarrow> real \<Rightarrow> real \<Rightarrow> rect \<Rightarrow> layout \<Rightarrow> layout" where
  "commit_transformer x y lead bb st =
     \<lparr>comps = comps st @
        [\<lparr>cid = ''T1'', ctype = ''Transformer'',
          p1 = (x - 16 / 10, y + 19 / 10), p2 = (x + 16 / 10, y - 19 / 10),
          orientation = ''na'',
          attrs = [(''label'', AStr ''T1''), (''lead_len'', ANum lead)]\<rparr>],
      cmds = cmds st @
        [DrawTransformer (x, y),
         DrawAnchorLead ''A1'' (- lead, 0), DrawAnchorLead ''A2'' (- lead, 0),
         DrawAnchorLead ''B1'' (lead, 0), DrawAnchorLead ''B2'' (lead, 0)],
      occupied = occupied st @ [bb]\<rparr>"

text \<open>
  One pass through the body of the loop of \<open>place_transformer_node\<close>, up to the overlap
  test: the two draws of the centre.
\<close>

definition sample_transformer :: "rng \<Rightarrow> (real \<times> real) \<times> rng" where
  "sample_transformer g =
     (let (x, g1) = uniform (vx1 + margin + 2) (vx2 - margin - 2) g;
          (y, g2) = uniform (vy1 + margin + 2) (vy2 - margin - 2) g1
      in ((x, y), g2))"

fun place_transformer_loop :: "nat \<Rightarrow> layout \<Rightarrow> rng \<Rightarrow> (error + layout) \<times> rng" where
  "place_transformer_loop 0 st g =
     (Inl (RuntimeError ''Could not place transformer without overlap.''), g)"
| "place_transformer_loop (Suc n) st g =
     (let ((x, y), g2) = sample_transformer g;
          bb = (x - 22 / 10, y - 22 / 10, x + 22 / 10, y + 22 / 10)
      in if list_ex (\<lambda>old. rects_overlap bb old (15 / 100)) (occupied st)
         then place_transformer_loop n st g2
         else (let (lead, g3) = choice [9 / 10, 11 / 10, 13 / 10] g2
               in (Inr (commit_transformer x y lead bb st), g3)))"

definition place_transformer_node :: "layout \<Rightarrow> rng \<Rightarrow> (error + layout) \<times> rng" where
  "place_transformer_node = place_transformer_loop 4000"

text \<open>
  Step 2 of the generator: the loop over the catalogue, skipping \<open>T1\<close>. An exception
  of a placement leaves the loop.
\<close>

fun place_bipoles ::
  "(string \<times> string \<times> string \<times> string) list \<Rightarrow> layout \<Rightarrow> rng \<Rightarrow> (error + layout) \<times> rng" where
  "place_bipoles [] st g = (Inr st, g)"
| "place_bipoles ((cid', ctype', element, label) # rest) st g =
     (if cid' = ''T1'' then place_bipoles rest st g
      else case place_two_pin cid' ctype' element label st g of
             (Inl e, g') \<Rightarrow> (Inl e, g')
           | (Inr st', g') \<Rightarrow> place_bipoles rest st' g')"

text \<open>
  Steps 3 and 4 and the assembly of the result: the junction and the wire jump are
  drawn wherever their centre falls, with no overlap test.
\<close>

definition add_motifs :: "style \<Rightarrow> layout \<Rightarrow> rng \<Rightarrow>
    (style \<times> tikz list \<times> ComponentGT list \<times> MarkerGT list) \<times> rng" where
  "add_motifs sty st g3 =
     (let (jx, g4) = uniform (vx1 + margin + 25 / 10) (vx2 - margin - 25 / 10) g3;
          (jy, g5) = uniform (vy1 + margin + 25 / 10) (vy2 - margin - 25 / 10) g4;
          cmds3 = cmds st @
            [DrawLine (jx - 2, jy) (jx, jy), DrawLine (jx, jy) (jx + 2, jy),
             DrawLine (jx, jy) (jx, jy + 2), tikz_junction jx jy (17 / 10)];
          markers1 = [\<lparr>mid = ''JUNC1'', mtype = ''junction'', center = (jx, jy),
                       mattrs = [(''min_degree'', AInt 3)]\<rparr>];
          (cx, g6) = uniform (vx1 + margin + 3) (vx2 - margin - 3) g5;
          (cy, g7) = uniform (vy1 + margin + 3) (vy2 - margin - 3) g6;
          gap = 30 / 100;
          cmds4 = cmds3 @
            [DrawLine (cx, cy - 22 / 10) (cx, cy + 22 / 10),
             DrawLine (cx - 24 / 10, cy) (cx - gap, cy),
             tikz_wire_jump cx cy gap (30 / 100),
             DrawLine (cx + gap, cy) (cx + 24 / 10, cy)];
          markers2 = markers1 @
            [\<lparr>mid = ''JUMP1'', mtype = ''wire_jump'', center = (cx, cy),
              mattrs = [(''gap'', ANum gap), (''hump_h'', ANum (30 / 100))]\<rparr>];
          lines = [UseBoundingBox (vx1, vy1) (vx2, vy2)] @ cmds4
      in ((sty, lines, comps st, markers2), g7))"

definition generate_scene_with_leads ::
  "rng \<Rightarrow> (error + style \<times> tikz list \<times> ComponentGT list \<times> MarkerGT list) \<times> rng" where
  "generate_scene_with_leads g0 =
     (let (line_w, g1) = choice [8 / 10, 1, 12 / 10] g0;
          sty = LineWidth line_w
      in case place_transformer_node \<lparr>comps = [], cmds = [], occupied = []\<rparr> g1 of
           (Inl e, g2) \<Rightarrow> (Inl e, g2)
         | (Inr st1, g2) \<Rightarrow>
            (case place_bipoles component_specs st1 g2 of
               (Inl e, g3) \<Rightarrow> (Inl e, g3)
             | (Inr st2, g3) \<Rightarrow>
                (let (sc, g7) = add_motifs sty st2 g3 in (Inr sc, g7))))"

section \<open>The retry wrapper and the export\<close>









section \<open>Vocabulary of the properties\<close>

text \<open>A point lies within the canvas bounds \<open>(-10, -8)\<close> to \<open>(10, 8)\<close>.\<close>

definition in_canvas :: "Pt \<Rightarrow> bool" where
  "in_canvas p = (vx1 \<le> fst p \<and> fst p \<le> vx2 \<and> vy1 \<le> snd p \<and> snd p \<le> vy2)"

text \<open>
  The coordinates a ground-truth record holds: \<open>p1\<close>, \<open>p2\<close> and every point stored in
  its attributes (the two lead endpoints of a two-terminal element).
\<close>

definition attr_points :: "(string \<times> attr) list \<Rightarrow> Pt list" where
  "attr_points kvs = concat (map (\<lambda>kv. case snd kv of APt p \<Rightarrow> [p] | _ \<Rightarrow> []) kvs)"

definition recorded_points :: "ComponentGT \<Rightarrow> Pt list" where
  "recorded_points c = [p1 c, p2 c] @ attr_points (attrs c)"

text \<open>
  The padded bounding box of a record: its recorded points, padded by \<open>pad\<close>. The list of
  recorded points is never empty, so this is what \<open>rect_from_points\<close> returns on it.
\<close>

definition padded_box :: "ComponentGT \<Rightarrow> rect" where
  "padded_box c =
     (let pts = recorded_points c
      in (Min (fst ` set pts) - pad, Min (snd ` set pts) - pad,
          Max (fst ` set pts) + pad, Max (snd ` set pts) + pad))"

text \<open>
  The fixed footprint of the transformer, from its record: the square of half-extent
  \<open>2.2\<close> around the midpoint of \<open>p1\<close> and \<open>p2\<close>, which is the sampled centre.
\<close>

definition footprint :: "ComponentGT \<Rightarrow> rect" where
  "footprint c =
     (let mx = (fst (p1 c) + fst (p2 c)) / 2; my = (snd (p1 c) + snd (p2 c)) / 2
      in (mx - 22 / 10, my - 22 / 10, mx + 22 / 10, my + 22 / 10))"

text \<open>The region a placement commits for a record.\<close>

definition occupied_region :: "ComponentGT \<Rightarrow> rect" where
  "occupied_region c = (if ctype c = ''Transformer'' then footprint c else padded_box c)"

text \<open>The contract of \<open>random()\<close>: every value of the tape lies in the unit interval.\<close>

definition unit_tape :: "rng \<Rightarrow> bool" where
  "unit_tape g = (\<forall>n. 0 \<le> units g n \<and> units g n \<le> 1)"

text \<open>A pass of a placement loop that starts at \<open>g\<close> is rejected by the overlap test.\<close>

definition two_pin_rejected :: "layout \<Rightarrow> rng \<Rightarrow> bool" where
  "two_pin_rejected st g =
     (case sample_two_pin g of ((ori, lead, q1, q2, w1, w2), g') \<Rightarrow>
        (case rect_from_points [q1, q2, w1, w2] pad of
           Inl e \<Rightarrow> False
         | Inr bb \<Rightarrow> list_ex (\<lambda>old. rects_overlap bb old (15 / 100)) (occupied st)))"

definition transformer_rejected :: "layout \<Rightarrow> rng \<Rightarrow> bool" where
  "transformer_rejected st g =
     (case sample_transformer g of ((x, y), g') \<Rightarrow>
        list_ex (\<lambda>old. rects_overlap (x - 22 / 10, y - 22 / 10, x + 22 / 10, y + 22 / 10)
                   old (15 / 100)) (occupied st))"

definition is_hump :: "tikz \<Rightarrow> bool" where
  "is_hump c = (case c of DrawHump a c1 c2 b \<Rightarrow> True | _ \<Rightarrow> False)"

text \<open>
  The invariant of the three lists while a scene is assembled: the occupied regions are
  those of the records, in order; no region overlaps an earlier one under the tolerance
  of the placement test; and no drawing instruction so far is a hump.
\<close>

definition layout_ok :: "layout \<Rightarrow> bool" where
  "layout_ok st =
     (occupied st = map occupied_region (comps st)
      \<and> sorted_wrt (\<lambda>a b. \<not> rects_overlap a b (15 / 100)) (occupied st)
      \<and> list_all (\<lambda>c. \<not> is_hump c) (cmds st))"

text \<open>Every coordinate recorded in a list of records lies within the canvas.\<close>

definition comps_in_canvas :: "ComponentGT list \<Rightarrow> bool" where
  "comps_in_canvas cs = list_all (\<lambda>c. list_all in_canvas (recorded_points c)) cs"

text \<open>
  The identifiers and types of the records of a finished scene, in the order of
  placement: the transformer, then the catalogue without \<open>T1\<close>.
\<close>

definition catalogue_ids :: "string list" where
  "catalogue_ids = [''T1'', ''AC1'', ''BAT1'', ''C1'', ''D1'', ''V1'', ''L1'', ''I1'',
                    ''SW_ID'', ''SW_R'', ''R1'']"

definition catalogue_ctypes :: "string list" where
  "catalogue_ctypes = [''Transformer'', ''ACSource'', ''Battery'', ''Capacitor'', ''Diode'',
     ''VoltageSource'', ''Inductor'', ''CurrentSource'', ''IdealSwitch'', ''RealSwitch'',
     ''Resistor'']"



section \<open>Two concrete random sources\<close>

text \<open>
  \<open>demo_rng\<close>: a tape of 63 draws, one pair (pick, unit value) per position. On it the
  transformer lands at the origin, the first pass for \<open>AC1\<close> lands on the transformer
  and is rejected, and every later pass is accepted; \<open>R1\<close> is vertical. The scene the
  generator builds from it is \<open>demo_body\<close>, \<open>demo_comps\<close>, \<open>demo_markers\<close>, with the
  occupied regions \<open>demo_occupied\<close>.
\<close>

definition demo_tape :: "(nat \<times> real) list" where
  "demo_tape =
     [(1, 0), (0, 1 / 2), (0, 1 / 2), (2, 0),
      (0, 0), (0, 0), (0, 0), (0, 1 / 2), (0, 1 / 2),
      (0, 0), (0, 0), (0, 0), (0, 1 / 2), (0, 3 / 4),
      (0, 0), (0, 0), (0, 0), (0, 1 / 8), (0, 1 / 16),
      (0, 0), (0, 0), (0, 0), (0, 1 / 2), (0, 1 / 16),
      (0, 0), (0, 0), (0, 0), (0, 7 / 8), (0, 1 / 16),
      (0, 0), (0, 0), (0, 0), (0, 1 / 8), (0, 1 / 4),
      (0, 0), (0, 0), (0, 0), (0, 1 / 2), (0, 1 / 4),
      (0, 0), (0, 0), (0, 0), (0, 7 / 8), (0, 1 / 4),
      (0, 0), (0, 0), (0, 0), (0, 1 / 8), (0, 15 / 16),
      (0, 0), (0, 0), (0, 0), (0, 1 / 2), (0, 15 / 16),
      (1, 0), (3, 0), (2, 0), (0, 1 / 8), (0, 5 / 8),
      (0, 1 / 4), (0, 1 / 2), (0, 3 / 4), (0, 1 / 2)]"

definition demo_rng :: rng where
  "demo_rng = \<lparr>picks = (\<lambda>n. if n < length demo_tape then fst (demo_tape ! n) else 0),
               units = (\<lambda>n. if n < length demo_tape then snd (demo_tape ! n) else 1 / 2), pos = 0\<rparr>"

definition demo_comps :: "ComponentGT list" where
  "demo_comps =
     [\<lparr>cid = ''T1'', ctype = ''Transformer'', p1 = (- (8 / 5), 19 / 10),
     p2 = (8 / 5, - (19 / 10)), orientation = ''na'',
     attrs = [(''label'', AStr ''T1''), (''lead_len'', ANum (13 / 10))]\<rparr>,
     \<lparr>cid = ''AC1'', ctype = ''ACSource'', p1 = (- (4 / 5), 17 / 5),
     p2 = (4 / 5, 17 / 5), orientation = ''h'',
     attrs =
     [(''label'', AStr ''AC''), (''element'', AStr ''sV''),
     (''lead_len'', ANum (4 / 5)),
     (''lead_end_1'', APt (- (8 / 5), 17 / 5)),
     (''lead_end_2'', APt (8 / 5, 17 / 5))]\<rparr>,
     \<lparr>cid = ''BAT1'', ctype = ''Battery'', p1 = (- (31 / 5), - (119 / 20)),
     p2 = (- (23 / 5), - (119 / 20)), orientation = ''h'',
     attrs =
     [(''label'', AStr ''BAT''), (''element'', AStr ''battery''),
     (''lead_len'', ANum (4 / 5)),
     (''lead_end_1'', APt (- 7, - (119 / 20))),
     (''lead_end_2'', APt (- (19 / 5), - (119 / 20)))]\<rparr>,
     \<lparr>cid = ''C1'', ctype = ''Capacitor'', p1 = (- (4 / 5), - (119 / 20)),
     p2 = (4 / 5, - (119 / 20)), orientation = ''h'',
     attrs =
     [(''label'', AStr ''C1''), (''element'', AStr ''C''),
     (''lead_len'', ANum (4 / 5)),
     (''lead_end_1'', APt (- (8 / 5), - (119 / 20))),
     (''lead_end_2'', APt (8 / 5, - (119 / 20)))]\<rparr>,
     \<lparr>cid = ''D1'', ctype = ''Diode'', p1 = (23 / 5, - (119 / 20)),
     p2 = (31 / 5, - (119 / 20)), orientation = ''h'',
     attrs =
     [(''label'', AStr ''D1''), (''element'', AStr ''D''),
     (''lead_len'', ANum (4 / 5)),
     (''lead_end_1'', APt (19 / 5, - (119 / 20))),
     (''lead_end_2'', APt (7, - (119 / 20)))]\<rparr>,
     \<lparr>cid = ''V1'', ctype = ''VoltageSource'',
     p1 = (- (31 / 5), - (17 / 5)), p2 = (- (23 / 5), - (17 / 5)),
     orientation = ''h'',
     attrs =
     [(''label'', AStr ''V1''), (''element'', AStr ''V''),
     (''lead_len'', ANum (4 / 5)),
     (''lead_end_1'', APt (- 7, - (17 / 5))),
     (''lead_end_2'', APt (- (19 / 5), - (17 / 5)))]\<rparr>,
     \<lparr>cid = ''L1'', ctype = ''Inductor'', p1 = (- (4 / 5), - (17 / 5)),
     p2 = (4 / 5, - (17 / 5)), orientation = ''h'',
     attrs =
     [(''label'', AStr ''L1''), (''element'', AStr ''L''),
     (''lead_len'', ANum (4 / 5)),
     (''lead_end_1'', APt (- (8 / 5), - (17 / 5))),
     (''lead_end_2'', APt (8 / 5, - (17 / 5)))]\<rparr>,
     \<lparr>cid = ''I1'', ctype = ''CurrentSource'', p1 = (23 / 5, - (17 / 5)),
     p2 = (31 / 5, - (17 / 5)), orientation = ''h'',
     attrs =
     [(''label'', AStr ''I1''), (''element'', AStr ''I''),
     (''lead_len'', ANum (4 / 5)),
     (''lead_end_1'', APt (19 / 5, - (17 / 5))),
     (''lead_end_2'', APt (7, - (17 / 5)))]\<rparr>,
     \<lparr>cid = ''SW_ID'', ctype = ''IdealSwitch'', p1 = (- (31 / 5), 119 / 20),
     p2 = (- (23 / 5), 119 / 20), orientation = ''h'',
     attrs =
     [(''label'', AStr ''SW''), (''element'', AStr ''switch''),
     (''lead_len'', ANum (4 / 5)),
     (''lead_end_1'', APt (- 7, 119 / 20)),
     (''lead_end_2'', APt (- (19 / 5), 119 / 20))]\<rparr>,
     \<lparr>cid = ''SW_R'', ctype = ''RealSwitch'', p1 = (- (4 / 5), 119 / 20),
     p2 = (4 / 5, 119 / 20), orientation = ''h'',
     attrs =
     [(''label'', AStr ''SWr''), (''element'', AStr ''switch''),
     (''lead_len'', ANum (4 / 5)),
     (''lead_end_1'', APt (- (8 / 5), 119 / 20)),
     (''lead_end_2'', APt (8 / 5, 119 / 20))]\<rparr>,
     \<lparr>cid = ''R1'', ctype = ''Resistor'', p1 = (- (33 / 5), 1 / 40),
     p2 = (- (33 / 5), 89 / 40), orientation = ''v'',
     attrs =
     [(''label'', AStr ''R1''), (''element'', AStr ''R''),
     (''lead_len'', ANum (6 / 5)),
     (''lead_end_1'', APt (- (33 / 5), - (47 / 40))),
     (''lead_end_2'', APt (- (33 / 5), 137 / 40))]\<rparr>]"

definition demo_markers :: "MarkerGT list" where
  "demo_markers =
     [\<lparr>mid = ''JUNC1'', mtype = ''junction'', center = (- (63 / 20), 0),
     mattrs = [(''min_degree'', AInt 3)]\<rparr>,
     \<lparr>mid = ''JUMP1'', mtype = ''wire_jump'', center = (29 / 10, 0),
     mattrs = [(''gap'', ANum (3 / 10)), (''hump_h'', ANum (3 / 10))]\<rparr>]"

definition demo_occupied :: "rect list" where
  "demo_occupied =
     [(- (11 / 5), - (11 / 5), 11 / 5, 11 / 5),
      (- (49 / 20), 51 / 20, 49 / 20, 17 / 4),
      (- (157 / 20), - (34 / 5), - (59 / 20), - (51 / 10)),
      (- (49 / 20), - (34 / 5), 49 / 20, - (51 / 10)),
      (59 / 20, - (34 / 5), 157 / 20, - (51 / 10)),
      (- (157 / 20), - (17 / 4), - (59 / 20), - (51 / 20)),
      (- (49 / 20), - (17 / 4), 49 / 20, - (51 / 20)),
      (59 / 20, - (17 / 4), 157 / 20, - (51 / 20)),
      (- (157 / 20), 51 / 10, - (59 / 20), 34 / 5),
      (- (49 / 20), 51 / 10, 49 / 20, 34 / 5),
      (- (149 / 20), - (81 / 40), - (23 / 4), 171 / 40)]"

definition demo_cmds :: "tikz list" where
  "demo_cmds =
     [DrawTransformer (0, 0),
      DrawAnchorLead ''A1'' (- (13 / 10), 0),
      DrawAnchorLead ''A2'' (- (13 / 10), 0),
      DrawAnchorLead ''B1'' (13 / 10, 0),
      DrawAnchorLead ''B2'' (13 / 10, 0),
      DrawBipole (- (4 / 5), 17 / 5) ''sV'' ''AC'' (4 / 5, 17 / 5),
      DrawLine (- (8 / 5), 17 / 5) (- (4 / 5), 17 / 5),
      DrawLine (4 / 5, 17 / 5) (8 / 5, 17 / 5),
      DrawBipole (- (31 / 5), - (119 / 20)) ''battery'' ''BAT'' (- (23 / 5), - (119 / 20)),
      DrawLine (- 7, - (119 / 20)) (- (31 / 5), - (119 / 20)),
      DrawLine (- (23 / 5), - (119 / 20)) (- (19 / 5), - (119 / 20)),
      DrawBipole (- (4 / 5), - (119 / 20)) ''C'' ''C1'' (4 / 5, - (119 / 20)),
      DrawLine (- (8 / 5), - (119 / 20)) (- (4 / 5), - (119 / 20)),
      DrawLine (4 / 5, - (119 / 20)) (8 / 5, - (119 / 20)),
      DrawBipole (23 / 5, - (119 / 20)) ''D'' ''D1'' (31 / 5, - (119 / 20)),
      DrawLine (19 / 5, - (119 / 20)) (23 / 5, - (119 / 20)),
      DrawLine (31 / 5, - (119 / 20)) (7, - (119 / 20)),
      DrawBipole (- (31 / 5), - (17 / 5)) ''V'' ''V1'' (- (23 / 5), - (17 / 5)),
      DrawLine (- 7, - (17 / 5)) (- (31 / 5), - (17 / 5)),
      DrawLine (- (23 / 5), - (17 / 5)) (- (19 / 5), - (17 / 5)),
      DrawBipole (- (4 / 5), - (17 / 5)) ''L'' ''L1'' (4 / 5, - (17 / 5)),
      DrawLine (- (8 / 5), - (17 / 5)) (- (4 / 5), - (17 / 5)),
      DrawLine (4 / 5, - (17 / 5)) (8 / 5, - (17 / 5)),
      DrawBipole (23 / 5, - (17 / 5)) ''I'' ''I1'' (31 / 5, - (17 / 5)),
      DrawLine (19 / 5, - (17 / 5)) (23 / 5, - (17 / 5)),
      DrawLine (31 / 5, - (17 / 5)) (7, - (17 / 5)),
      DrawBipole (- (31 / 5), 119 / 20) ''switch'' ''SW'' (- (23 / 5), 119 / 20),
      DrawLine (- 7, 119 / 20) (- (31 / 5), 119 / 20),
      DrawLine (- (23 / 5), 119 / 20) (- (19 / 5), 119 / 20),
      DrawBipole (- (4 / 5), 119 / 20) ''switch'' ''SWr'' (4 / 5, 119 / 20),
      DrawLine (- (8 / 5), 119 / 20) (- (4 / 5), 119 / 20),
      DrawLine (4 / 5, 119 / 20) (8 / 5, 119 / 20),
      DrawBipole (- (33 / 5), 1 / 40) ''R'' ''R1'' (- (33 / 5), 89 / 40),
      DrawLine (- (33 / 5), - (47 / 40)) (- (33 / 5), 1 / 40),
      DrawLine (- (33 / 5), 89 / 40) (- (33 / 5), 137 / 40)]"

definition demo_body :: "tikz list" where
  "demo_body =
     UseBoundingBox (- 10, - 8) (10, 8) # demo_cmds @
     [DrawLine (- (103 / 20), 0) (- (63 / 20), 0),
      DrawLine (- (63 / 20), 0) (- (23 / 20), 0),
      DrawLine (- (63 / 20), 0) (- (63 / 20), 2),
      FillCircle (- (63 / 20), 0) (17 / 10),
      DrawLine (29 / 10, - (11 / 5)) (29 / 10, 11 / 5),
      DrawLine (1 / 2, 0) (13 / 5, 0),
      DrawHump (13 / 5, 0) (13 / 5, 3 / 10) (16 / 5, 3 / 10) (16 / 5, 0),
      DrawLine (16 / 5, 0) (53 / 10, 0)]"

text \<open>
  \<open>const_rng\<close>: every pick is 0 and every unit value is one half. The transformer lands
  at the origin and so does every pass for \<open>AC1\<close>, so no scene is ever built from it.
\<close>

definition const_rng :: rng where
  "const_rng = \<lparr>picks = (\<lambda>n. 0), units = (\<lambda>n. 1 / 2), pos = 0\<rparr>"

section \<open>Properties of the geometry helpers\<close>

lemma py_min_Min: "xs \<noteq> [] \<Longrightarrow> py_min xs = Inr (Min (set xs))"
proof -
  have scan: "fold (\<lambda>v m. if v < m then v else m) ys (x::real) = Min (insert x (set ys))"
    for ys x
  proof (induction ys arbitrary: x)
    case Nil
    show ?case by simp
  next
    case (Cons y ys)
    have "(if y < x then y else x) = min x y" by (simp add: min_def)
    then have "fold (\<lambda>v m. if v < m then v else m) (y # ys) x
        = Min (insert (min x y) (set ys))"
      using Cons.IH [of "min x y"] by simp
    also have "\<dots> = Min (insert x (set (y # ys)))"
      by (cases "set ys = {}") (simp_all add: min.assoc)
    finally show ?case .
  qed
  assume "xs \<noteq> []"
  then obtain x rest where "xs = x # rest" by (cases xs) auto
  then show ?thesis by (simp add: py_min_def scan)
qed

lemma py_max_Max: "xs \<noteq> [] \<Longrightarrow> py_max xs = Inr (Max (set xs))"
proof -
  have scan: "fold (\<lambda>v m. if v > m then v else m) ys (x::real) = Max (insert x (set ys))"
    for ys x
  proof (induction ys arbitrary: x)
    case Nil
    show ?case by simp
  next
    case (Cons y ys)
    have "(if y > x then y else x) = max x y" by (simp add: max_def)
    then have "fold (\<lambda>v m. if v > m then v else m) (y # ys) x
        = Max (insert (max x y) (set ys))"
      using Cons.IH [of "max x y"] by simp
    also have "\<dots> = Max (insert x (set (y # ys)))"
      by (cases "set ys = {}") (simp_all add: max.assoc)
    finally show ?case .
  qed
  assume "xs \<noteq> []"
  then obtain x rest where "xs = x # rest" by (cases xs) auto
  then show ?thesis by (simp add: py_max_def scan)
qed

lemma rect_from_points_nonempty:
  assumes "pts \<noteq> []"
  shows "rect_from_points pts q =
     Inr (Min (fst ` set pts) - q, Min (snd ` set pts) - q,
          Max (fst ` set pts) + q, Max (snd ` set pts) + q)"
  using assms by (simp add: rect_from_points_def py_min_Min py_max_Max)

text \<open>
  C5. For all rectangles and every tolerance: the overlap predicate is true unless the
  rectangles are separated by at least the tolerance along some axis; it is symmetric;
  and it is false only when the rectangles are strictly separated, that is, exactly
  when some gap is strictly larger than the tolerance (at a gap equal to the tolerance
  it is still true). For a tolerance that is not negative, strictly separated rectangles
  are disjoint: some gap is strictly positive.
\<close>

theorem rects_overlap_separating_axis:
  "(separated_at_least a b t \<or> rects_overlap a b t)
   \<and> rects_overlap a b t = rects_overlap b a t
   \<and> rects_overlap a b t = (\<not> separated_more_than a b t)
   \<and> (0 \<le> t \<longrightarrow> rects_overlap a b t \<or> separated_more_than a b 0)"
  by (cases a; cases b) (auto simp: separated_at_least_def separated_more_than_def)

theorem rects_overlap_separating_axis_witness:
  "\<not> rects_overlap (0, 0, 1, 1) (2, 0, 3, 1) (15 / 100)
   \<and> \<not> rects_overlap (2, 0, 3, 1) (0, 0, 1, 1) (15 / 100)
   \<and> separated_more_than (0, 0, 1, 1) (2, 0, 3, 1) 0
   \<and> rects_overlap (0, 0, 1, 1) (115 / 100, 0, 3, 1) (15 / 100)
   \<and> separated_at_least (0, 0, 1, 1) (115 / 100, 0, 3, 1) (15 / 100)"
  using rects_overlap_separating_axis [of "(0, 0, 1, 1)" "(2, 0, 3, 1)" "15 / 100"]
  by (simp add: separated_at_least_def separated_more_than_def)

text \<open>
  C6, as the code has it: on a non-empty list of points the result is the enclosing
  box grown by the padding on every side, and every given point lies in the enclosing
  box; on the empty list the call raises \<open>ValueError\<close>.
\<close>

theorem rect_from_points_encloses:
  assumes "pts \<noteq> []"
  shows "rect_from_points pts q =
     Inr (Min (fst ` set pts) - q, Min (snd ` set pts) - q,
          Max (fst ` set pts) + q, Max (snd ` set pts) + q)
   \<and> (\<forall>p \<in> set pts.
        Min (fst ` set pts) \<le> fst p \<and> fst p \<le> Max (fst ` set pts) \<and>
        Min (snd ` set pts) \<le> snd p \<and> snd p \<le> Max (snd ` set pts))"
  using assms by (simp add: rect_from_points_nonempty)

text \<open>Against C6 as it is worded: the empty list of points makes the call fail.\<close>

theorem rect_from_points_empty_fails: "rect_from_points [] (85 / 100) = Inl ValueError"
  by (simp add: rect_from_points_def py_min_def)

theorem rect_from_points_encloses_witness:
  "rect_from_points [(1, 5), (3, 2)] (1 / 2) = Inr (1 / 2, 3 / 2, 7 / 2, 11 / 2)"
  using rect_from_points_encloses [of "[(1, 5), (3, 2)]" "1 / 2"] by simp

section \<open>The placement loops\<close>

lemma choice_rng [simp]: "snd (choice xs g) = g\<lparr>pos := Suc (pos g)\<rparr>"
  by (simp add: choice_def)

lemma uniform_rng [simp]: "snd (uniform a b g) = g\<lparr>pos := Suc (pos g)\<rparr>"
  by (simp add: uniform_def)

lemma choice_mem: "xs \<noteq> [] \<Longrightarrow> fst (choice xs g) \<in> set xs"
  by (simp add: choice_def)

lemma sample_two_pin_rng: "snd (sample_two_pin g) = g\<lparr>pos := pos g + 5\<rparr>"
  by (simp add: sample_two_pin_def Let_def split_beta)

lemma rect_from_four:
  "\<exists>bb. rect_from_points [a, b, c, d] q = Inr bb"
  by (simp add: rect_from_points_nonempty)

lemma place_two_pin_loop_reject:
  "two_pin_rejected st g \<Longrightarrow>
   place_two_pin_loop (Suc n) c t e l st g = place_two_pin_loop n c t e l st (g\<lparr>pos := pos g + 5\<rparr>)"
  using sample_two_pin_rng [of g]
  by (auto simp: two_pin_rejected_def split: prod.splits sum.splits)

lemma place_two_pin_loop_accept:
  assumes "\<not> two_pin_rejected st g"
  shows "\<exists>ori lead q1 q2 w1 w2 bb.
      sample_two_pin g = ((ori, lead, q1, q2, w1, w2), g\<lparr>pos := pos g + 5\<rparr>) \<and>
      rect_from_points [q1, q2, w1, w2] pad = Inr bb \<and>
      \<not> list_ex (\<lambda>old. rects_overlap bb old (15 / 100)) (occupied st) \<and>
      place_two_pin_loop (Suc n) c t e l st g =
        (Inr (commit_two_pin c t e l ori lead q1 q2 w1 w2 bb st), g\<lparr>pos := pos g + 5\<rparr>)"
proof -
  obtain ori lead q1 q2 w1 w2 g' where s: "sample_two_pin g = ((ori, lead, q1, q2, w1, w2), g')"
    by (metis prod_cases3 surj_pair)
  then have g': "g' = g\<lparr>pos := pos g + 5\<rparr>" using sample_two_pin_rng [of g] by simp
  obtain bb where bb: "rect_from_points [q1, q2, w1, w2] pad = Inr bb"
    using rect_from_four by blast
  have clear: "\<not> list_ex (\<lambda>old. rects_overlap bb old (15 / 100)) (occupied st)"
    using assms s bb by (simp add: two_pin_rejected_def)
  have "place_two_pin_loop (Suc n) c t e l st g =
        (Inr (commit_two_pin c t e l ori lead q1 q2 w1 w2 bb st), g\<lparr>pos := pos g + 5\<rparr>)"
    using clear s g' bb by simp
  with clear s g' bb show ?thesis by blast
qed


lemma place_two_pin_loop_cases:
  "(\<exists>m. place_two_pin_loop n c t e l st g = (Inl (RuntimeError m), g\<lparr>pos := pos g + 5 * n\<rparr>))
   \<or> (\<exists>k<n. \<exists>ori lead q1 q2 w1 w2 bb.
        sample_two_pin (g\<lparr>pos := pos g + 5 * k\<rparr>)
          = ((ori, lead, q1, q2, w1, w2), g\<lparr>pos := pos g + 5 * Suc k\<rparr>) \<and>
        rect_from_points [q1, q2, w1, w2] pad = Inr bb \<and>
        \<not> list_ex (\<lambda>old. rects_overlap bb old (15 / 100)) (occupied st) \<and>
        place_two_pin_loop n c t e l st g =
          (Inr (commit_two_pin c t e l ori lead q1 q2 w1 w2 bb st), g\<lparr>pos := pos g + 5 * Suc k\<rparr>))"
proof (induction n arbitrary: g)
  case 0
  show ?case by simp
next
  case (Suc n)
  show ?case
  proof (cases "two_pin_rejected st g")
    case True
    note step = place_two_pin_loop_reject [OF True, of n c t e l]
    from Suc.IH [of "g\<lparr>pos := pos g + 5\<rparr>"] show ?thesis
    proof (elim disjE exE conjE)
      fix m
      assume "place_two_pin_loop n c t e l st (g\<lparr>pos := pos g + 5\<rparr>) =
        (Inl (RuntimeError m), g\<lparr>pos := pos g + 5\<rparr>\<lparr>pos := pos (g\<lparr>pos := pos g + 5\<rparr>) + 5 * n\<rparr>)"
      then show ?thesis using step by (simp add: add.assoc del: place_two_pin_loop.simps)
    next
      fix k ori lead q1 q2 w1 w2 bb
      assume k: "k < n"
        and "sample_two_pin (g\<lparr>pos := pos g + 5\<rparr>\<lparr>pos := pos (g\<lparr>pos := pos g + 5\<rparr>) + 5 * k\<rparr>) =
          ((ori, lead, q1, q2, w1, w2), g\<lparr>pos := pos g + 5\<rparr>\<lparr>pos := pos (g\<lparr>pos := pos g + 5\<rparr>) + 5 * Suc k\<rparr>)"
        and "rect_from_points [q1, q2, w1, w2] pad = Inr bb"
        and "\<not> list_ex (\<lambda>old. rects_overlap bb old (15 / 100)) (occupied st)"
        and "place_two_pin_loop n c t e l st (g\<lparr>pos := pos g + 5\<rparr>) =
          (Inr (commit_two_pin c t e l ori lead q1 q2 w1 w2 bb st),
           g\<lparr>pos := pos g + 5\<rparr>\<lparr>pos := pos (g\<lparr>pos := pos g + 5\<rparr>) + 5 * Suc k\<rparr>)"
      then have "Suc k < Suc n \<and>
        sample_two_pin (g\<lparr>pos := pos g + 5 * Suc k\<rparr>)
          = ((ori, lead, q1, q2, w1, w2), g\<lparr>pos := pos g + 5 * Suc (Suc k)\<rparr>) \<and>
        rect_from_points [q1, q2, w1, w2] pad = Inr bb \<and>
        \<not> list_ex (\<lambda>old. rects_overlap bb old (15 / 100)) (occupied st) \<and>
        place_two_pin_loop (Suc n) c t e l st g =
          (Inr (commit_two_pin c t e l ori lead q1 q2 w1 w2 bb st), g\<lparr>pos := pos g + 5 * Suc (Suc k)\<rparr>)"
        using step by (simp add: add.assoc del: place_two_pin_loop.simps)
      then show ?thesis by blast
    qed
  next
    case False
    from place_two_pin_loop_accept [OF False, of n c t e l]
    obtain ori lead q1 q2 w1 w2 bb where
      "0 < Suc n \<and> sample_two_pin (g\<lparr>pos := pos g + 5 * 0\<rparr>)
          = ((ori, lead, q1, q2, w1, w2), g\<lparr>pos := pos g + 5 * Suc 0\<rparr>) \<and>
        rect_from_points [q1, q2, w1, w2] pad = Inr bb \<and>
        \<not> list_ex (\<lambda>old. rects_overlap bb old (15 / 100)) (occupied st) \<and>
        place_two_pin_loop (Suc n) c t e l st g =
          (Inr (commit_two_pin c t e l ori lead q1 q2 w1 w2 bb st), g\<lparr>pos := pos g + 5 * Suc 0\<rparr>)"
      by auto
    then show ?thesis by blast
  qed
qed

lemma sample_transformer_rng: "snd (sample_transformer g) = g\<lparr>pos := pos g + 2\<rparr>"
  by (simp add: sample_transformer_def Let_def split_beta)

lemma place_transformer_loop_reject:
  "transformer_rejected st g \<Longrightarrow>
   place_transformer_loop (Suc n) st g = place_transformer_loop n st (g\<lparr>pos := pos g + 2\<rparr>)"
  using sample_transformer_rng [of g]
  by (auto simp: transformer_rejected_def split: prod.splits)

lemma place_transformer_loop_accept:
  assumes "\<not> transformer_rejected st g"
  shows "\<exists>x y lead.
      sample_transformer g = ((x, y), g\<lparr>pos := pos g + 2\<rparr>) \<and>
      lead \<in> {9 / 10, 11 / 10, 13 / 10} \<and>
      \<not> list_ex (\<lambda>old. rects_overlap (x - 22 / 10, y - 22 / 10, x + 22 / 10, y + 22 / 10)
            old (15 / 100)) (occupied st) \<and>
      place_transformer_loop (Suc n) st g =
        (Inr (commit_transformer x y lead (x - 22 / 10, y - 22 / 10, x + 22 / 10, y + 22 / 10) st),
         g\<lparr>pos := pos g + 3\<rparr>)"
proof -
  obtain x y g' where s: "sample_transformer g = ((x, y), g')"
    by (metis surj_pair)
  then have g': "g' = g\<lparr>pos := pos g + 2\<rparr>" using sample_transformer_rng [of g] by simp
  define lead :: real where "lead = fst (choice [9 / 10, 11 / 10, 13 / 10] g')"
  have mem: "lead \<in> {9 / 10, 11 / 10, 13 / 10}"
    using choice_mem [of "[9 / 10, 11 / 10, 13 / 10 :: real]" g'] by (simp add: lead_def)
  have clear: "\<not> list_ex (\<lambda>old. rects_overlap (x - 22 / 10, y - 22 / 10, x + 22 / 10, y + 22 / 10)
            old (15 / 100)) (occupied st)"
    using assms s by (simp add: transformer_rejected_def)
  have "place_transformer_loop (Suc n) st g =
        (Inr (commit_transformer x y lead (x - 22 / 10, y - 22 / 10, x + 22 / 10, y + 22 / 10) st),
         g\<lparr>pos := pos g + 3\<rparr>)"
    using clear s g' by (simp add: lead_def split_beta choice_def)
  with clear s g' mem show ?thesis by blast
qed

lemma place_transformer_loop_cases:
  "place_transformer_loop n st g =
     (Inl (RuntimeError ''Could not place transformer without overlap.''), g\<lparr>pos := pos g + 2 * n\<rparr>)
   \<or> (\<exists>k<n. \<exists>x y lead.
        sample_transformer (g\<lparr>pos := pos g + 2 * k\<rparr>) = ((x, y), g\<lparr>pos := pos g + 2 * Suc k\<rparr>) \<and>
        lead \<in> {9 / 10, 11 / 10, 13 / 10} \<and>
        \<not> list_ex (\<lambda>old. rects_overlap (x - 22 / 10, y - 22 / 10, x + 22 / 10, y + 22 / 10)
              old (15 / 100)) (occupied st) \<and>
        place_transformer_loop n st g =
          (Inr (commit_transformer x y lead (x - 22 / 10, y - 22 / 10, x + 22 / 10, y + 22 / 10) st),
           g\<lparr>pos := pos g + 2 * Suc k + 1\<rparr>))"
proof (induction n arbitrary: g)
  case 0
  show ?case by simp
next
  case (Suc n)
  show ?case
  proof (cases "transformer_rejected st g")
    case True
    note step = place_transformer_loop_reject [OF True, of n]
    from Suc.IH [of "g\<lparr>pos := pos g + 2\<rparr>"] show ?thesis
    proof (elim disjE exE conjE)
      assume "place_transformer_loop n st (g\<lparr>pos := pos g + 2\<rparr>) =
        (Inl (RuntimeError ''Could not place transformer without overlap.''),
         g\<lparr>pos := pos g + 2\<rparr>\<lparr>pos := pos (g\<lparr>pos := pos g + 2\<rparr>) + 2 * n\<rparr>)"
      then show ?thesis using step by (simp add: add.assoc del: place_transformer_loop.simps)
    next
      fix k x y lead
      assume "k < n"
        and "sample_transformer (g\<lparr>pos := pos g + 2\<rparr>\<lparr>pos := pos (g\<lparr>pos := pos g + 2\<rparr>) + 2 * k\<rparr>) =
          ((x, y), g\<lparr>pos := pos g + 2\<rparr>\<lparr>pos := pos (g\<lparr>pos := pos g + 2\<rparr>) + 2 * Suc k\<rparr>)"
        and "lead \<in> {9 / 10, 11 / 10, 13 / 10}"
        and "\<not> list_ex (\<lambda>old. rects_overlap (x - 22 / 10, y - 22 / 10, x + 22 / 10, y + 22 / 10)
              old (15 / 100)) (occupied st)"
        and "place_transformer_loop n st (g\<lparr>pos := pos g + 2\<rparr>) =
          (Inr (commit_transformer x y lead (x - 22 / 10, y - 22 / 10, x + 22 / 10, y + 22 / 10) st),
           g\<lparr>pos := pos g + 2\<rparr>\<lparr>pos := pos (g\<lparr>pos := pos g + 2\<rparr>) + 2 * Suc k + 1\<rparr>)"
      then have "Suc k < Suc n \<and>
        sample_transformer (g\<lparr>pos := pos g + 2 * Suc k\<rparr>) = ((x, y), g\<lparr>pos := pos g + 2 * Suc (Suc k)\<rparr>) \<and>
        lead \<in> {9 / 10, 11 / 10, 13 / 10} \<and>
        \<not> list_ex (\<lambda>old. rects_overlap (x - 22 / 10, y - 22 / 10, x + 22 / 10, y + 22 / 10)
              old (15 / 100)) (occupied st) \<and>
        place_transformer_loop (Suc n) st g =
          (Inr (commit_transformer x y lead (x - 22 / 10, y - 22 / 10, x + 22 / 10, y + 22 / 10) st),
           g\<lparr>pos := pos g + 2 * Suc (Suc k) + 1\<rparr>)"
        using step by (simp add: add.assoc del: place_transformer_loop.simps)
      then show ?thesis by blast
    qed
  next
    case False
    from place_transformer_loop_accept [OF False, of n]
    obtain x y lead where a: "sample_transformer g = ((x, y), g\<lparr>pos := pos g + 2\<rparr>)"
      "lead \<in> {9 / 10, 11 / 10, 13 / 10}"
      "\<not> list_ex (\<lambda>old. rects_overlap (x - 22 / 10, y - 22 / 10, x + 22 / 10, y + 22 / 10)
              old (15 / 100)) (occupied st)"
      "place_transformer_loop (Suc n) st g =
          (Inr (commit_transformer x y lead (x - 22 / 10, y - 22 / 10, x + 22 / 10, y + 22 / 10) st),
           g\<lparr>pos := pos g + 3\<rparr>)"
      by blast
    have "0 < Suc n \<and> sample_transformer (g\<lparr>pos := pos g + 2 * 0\<rparr>) = ((x, y), g\<lparr>pos := pos g + 2 * Suc 0\<rparr>) \<and>
        lead \<in> {9 / 10, 11 / 10, 13 / 10} \<and>
        \<not> list_ex (\<lambda>old. rects_overlap (x - 22 / 10, y - 22 / 10, x + 22 / 10, y + 22 / 10)
              old (15 / 100)) (occupied st) \<and>
        place_transformer_loop (Suc n) st g =
          (Inr (commit_transformer x y lead (x - 22 / 10, y - 22 / 10, x + 22 / 10, y + 22 / 10) st),
           g\<lparr>pos := pos g + 2 * Suc 0 + 1\<rparr>)"
      using a by (simp del: place_transformer_loop.simps)
    then show ?thesis by blast
  qed
qed


subsection \<open>What the draws deliver\<close>

lemma uniform_between:
  assumes "0 \<le> units g (pos g)" "units g (pos g) \<le> 1" "a \<le> b"
  shows "a \<le> fst (uniform a b g) \<and> fst (uniform a b g) \<le> b"
proof -
  let ?u = "units g (pos g)"
  have "0 \<le> (b - a) * ?u" using assms by simp
  moreover have "(b - a) * ?u \<le> (b - a) * 1"
    using assms by (intro mult_left_mono) simp_all
  ultimately show ?thesis by (simp add: uniform_def)
qed

lemma unit_tape_pos [simp]: "unit_tape (g\<lparr>pos := k\<rparr>) = unit_tape g"
  by (simp add: unit_tape_def)

lemma sample_transformer_range:
  assumes "unit_tape g" "sample_transformer g = ((x, y), g')"
  shows "- 68 / 10 \<le> x \<and> x \<le> 68 / 10 \<and> - 48 / 10 \<le> y \<and> y \<le> 48 / 10"
proof -
  have u: "0 \<le> units g n \<and> units g n \<le> 1" for n using assms(1) by (simp add: unit_tape_def)
  have x: "x = fst (uniform (vx1 + margin + 2) (vx2 - margin - 2) g)"
    and y: "y = fst (uniform (vy1 + margin + 2) (vy2 - margin - 2) (g\<lparr>pos := Suc (pos g)\<rparr>))"
    using assms(2) by (auto simp: sample_transformer_def uniform_def split_beta Let_def)
  have "vx1 + margin + 2 \<le> x \<and> x \<le> vx2 - margin - 2"
    unfolding x by (rule uniform_between) (use u in \<open>simp_all add: vx1_def vx2_def margin_def\<close>)
  moreover have "vy1 + margin + 2 \<le> y \<and> y \<le> vy2 - margin - 2"
    unfolding y by (rule uniform_between) (use u in \<open>simp_all add: vy1_def vy2_def margin_def\<close>)
  ultimately show ?thesis by (simp add: vx1_def vx2_def vy1_def vy2_def margin_def)
qed

lemma sample_two_pin_in_canvas:
  assumes tape: "unit_tape g"
    and s: "sample_two_pin g = ((ori, lead, q1, q2, w1, w2), g')"
  shows "in_canvas q1 \<and> in_canvas q2 \<and> in_canvas w1 \<and> in_canvas w2"
proof -
  have u: "0 \<le> units g n \<and> units g n \<le> 1" for n using tape by (simp add: unit_tape_def)
  define L where "L = fst (choice comp_len_choices (g\<lparr>pos := Suc (pos g)\<rparr>))"
  define ld where "ld = fst (choice lead_len_choices (g\<lparr>pos := Suc (Suc (pos g))\<rparr>))"
  define h where "h = L / 2 + ld"
  define g3 where "g3 = g\<lparr>pos := Suc (Suc (Suc (pos g)))\<rparr>"
  define g4 where "g4 = g\<lparr>pos := Suc (Suc (Suc (Suc (pos g))))\<rparr>"
  have "L \<in> set comp_len_choices"
    unfolding L_def by (rule choice_mem) (simp add: comp_len_choices_def)
  then have L: "16 / 10 \<le> L \<and> L \<le> 22 / 10" by (auto simp: comp_len_choices_def)
  have "ld \<in> set lead_len_choices"
    unfolding ld_def by (rule choice_mem) (simp add: lead_len_choices_def)
  then have ld: "8 / 10 \<le> ld \<and> ld \<le> 12 / 10" by (auto simp: lead_len_choices_def)
  have h: "0 \<le> h \<and> h \<le> 23 / 10" using L ld by (simp add: h_def)
  show ?thesis
  proof (cases "fst (choice [''h'', ''v''] g) = ''h''")
    case True
    define cx where "cx = fst (uniform (vx1 + margin + h) (vx2 - margin - h) g3)"
    define cy where "cy = fst (uniform (vy1 + margin) (vy2 - margin) g4)"
    have cx: "vx1 + margin + h \<le> cx \<and> cx \<le> vx2 - margin - h"
      unfolding cx_def
      by (rule uniform_between) (use u h in \<open>simp_all add: g3_def vx1_def vx2_def margin_def\<close>)
    have cy: "vy1 + margin \<le> cy \<and> cy \<le> vy2 - margin"
      unfolding cy_def
      by (rule uniform_between) (use u in \<open>simp_all add: g4_def vy1_def vy2_def margin_def\<close>)
    have "fst (sample_two_pin g) =
        (''h'', ld, (cx - L / 2, cy), (cx + L / 2, cy),
         (cx - L / 2 - ld, cy), (cx + L / 2 + ld, cy))"
      using True
      by (simp add: sample_two_pin_def split_beta Let_def cx_def cy_def h_def L_def ld_def
          g3_def g4_def)
    then have pts: "q1 = (cx - L / 2, cy)" "q2 = (cx + L / 2, cy)"
      "w1 = (cx - L / 2 - ld, cy)" "w2 = (cx + L / 2 + ld, cy)"
      by (simp_all add: s)
    show ?thesis
      using cx cy L ld
      by (simp add: pts in_canvas_def h_def vx1_def vx2_def vy1_def vy2_def margin_def)
  next
    case False
    define cx where "cx = fst (uniform (vx1 + margin) (vx2 - margin) g3)"
    define cy where "cy = fst (uniform (vy1 + margin + h) (vy2 - margin - h) g4)"
    have cx: "vx1 + margin \<le> cx \<and> cx \<le> vx2 - margin"
      unfolding cx_def
      by (rule uniform_between) (use u in \<open>simp_all add: g3_def vx1_def vx2_def margin_def\<close>)
    have cy: "vy1 + margin + h \<le> cy \<and> cy \<le> vy2 - margin - h"
      unfolding cy_def
      by (rule uniform_between) (use u h in \<open>simp_all add: g4_def vy1_def vy2_def margin_def\<close>)
    have "fst (sample_two_pin g) =
        (fst (choice [''h'', ''v''] g), ld, (cx, cy - L / 2), (cx, cy + L / 2),
         (cx, cy - L / 2 - ld), (cx, cy + L / 2 + ld))"
      using False
      by (simp add: sample_two_pin_def split_beta Let_def cx_def cy_def h_def L_def ld_def
          g3_def g4_def)
    then have pts: "q1 = (cx, cy - L / 2)" "q2 = (cx, cy + L / 2)"
      "w1 = (cx, cy - L / 2 - ld)" "w2 = (cx, cy + L / 2 + ld)"
      by (simp_all add: s)
    show ?thesis
      using cx cy L ld
      by (simp add: pts in_canvas_def h_def vx1_def vx2_def vy1_def vy2_def margin_def)
  qed
qed

subsection \<open>What a committed placement records\<close>

lemma recorded_points_two_pin:
  "recorded_points \<lparr>cid = c, ctype = t, p1 = q1, p2 = q2, orientation = ori,
      attrs = [(''label'', AStr l), (''element'', AStr e), (''lead_len'', ANum lead),
               (''lead_end_1'', APt w1), (''lead_end_2'', APt w2)]\<rparr> = [q1, q2, w1, w2]"
  by (simp add: recorded_points_def attr_points_def)

lemma recorded_points_transformer:
  "recorded_points \<lparr>cid = c, ctype = t, p1 = q1, p2 = q2, orientation = ori,
      attrs = [(''label'', AStr l), (''lead_len'', ANum lead)]\<rparr> = [q1, q2]"
  by (simp add: recorded_points_def attr_points_def)

lemma padded_box_rect_from_points:
  "rect_from_points (recorded_points c) pad = Inr (padded_box c)"
  by (simp add: rect_from_points_nonempty padded_box_def recorded_points_def Let_def)

lemma rects_overlap_sym: "rects_overlap a b t = rects_overlap b a t"
  by (cases a; cases b) auto

lemma layout_ok_snoc:
  assumes "layout_ok st"
    and "comps st' = comps st @ [r]" "occupied st' = occupied st @ [bb]"
    and "occupied_region r = bb"
    and "\<not> list_ex (\<lambda>old. rects_overlap bb old (15 / 100)) (occupied st)"
    and "cmds st' = cmds st @ new" "list_all (\<lambda>c. \<not> is_hump c) new"
  shows "layout_ok st'"
  using assms
  by (auto simp: layout_ok_def sorted_wrt_append list_ex_iff rects_overlap_sym [of _ bb])

lemma commit_two_pin_ok:
  assumes "layout_ok st" "t \<noteq> ''Transformer''"
    and "rect_from_points [q1, q2, w1, w2] pad = Inr bb"
    and "\<not> list_ex (\<lambda>old. rects_overlap bb old (15 / 100)) (occupied st)"
  shows "layout_ok (commit_two_pin c t e l ori lead q1 q2 w1 w2 bb st)"
proof (rule layout_ok_snoc [OF assms(1) _ _ _ assms(4)])
  let ?r = "\<lparr>cid = c, ctype = t, p1 = q1, p2 = q2, orientation = ori,
      attrs = [(''label'', AStr l), (''element'', AStr e), (''lead_len'', ANum lead),
               (''lead_end_1'', APt w1), (''lead_end_2'', APt w2)]\<rparr>"
  show "comps (commit_two_pin c t e l ori lead q1 q2 w1 w2 bb st) = comps st @ [?r]"
    by (simp add: commit_two_pin_def)
  show "occupied (commit_two_pin c t e l ori lead q1 q2 w1 w2 bb st) = occupied st @ [bb]"
    by (simp add: commit_two_pin_def)
  have "Inr (padded_box ?r) = rect_from_points [q1, q2, w1, w2] pad"
    using padded_box_rect_from_points [of ?r] by (simp only: recorded_points_two_pin)
  then show "occupied_region ?r = bb"
    using assms(2,3) by (simp add: occupied_region_def)
  show "cmds (commit_two_pin c t e l ori lead q1 q2 w1 w2 bb st)
      = cmds st @ [DrawBipole q1 e l q2, DrawLine w1 q1, DrawLine q2 w2]"
    by (simp add: commit_two_pin_def)
  show "list_all (\<lambda>c. \<not> is_hump c) [DrawBipole q1 e l q2, DrawLine w1 q1, DrawLine q2 w2]"
    by (simp add: is_hump_def)
qed

lemma commit_transformer_ok:
  assumes "layout_ok st"
    and "\<not> list_ex (\<lambda>old. rects_overlap (x - 22 / 10, y - 22 / 10, x + 22 / 10, y + 22 / 10)
            old (15 / 100)) (occupied st)"
  shows "layout_ok (commit_transformer x y lead
           (x - 22 / 10, y - 22 / 10, x + 22 / 10, y + 22 / 10) st)"
proof (rule layout_ok_snoc [OF assms(1) _ _ _ assms(2)])
  let ?r = "\<lparr>cid = ''T1'', ctype = ''Transformer'',
          p1 = (x - 16 / 10, y + 19 / 10), p2 = (x + 16 / 10, y - 19 / 10),
          orientation = ''na'',
          attrs = [(''label'', AStr ''T1''), (''lead_len'', ANum lead)]\<rparr>"
  let ?st = "commit_transformer x y lead (x - 22 / 10, y - 22 / 10, x + 22 / 10, y + 22 / 10) st"
  show "comps ?st = comps st @ [?r]" by (simp add: commit_transformer_def)
  show "occupied ?st = occupied st @ [(x - 22 / 10, y - 22 / 10, x + 22 / 10, y + 22 / 10)]"
    by (simp add: commit_transformer_def)
  show "occupied_region ?r = (x - 22 / 10, y - 22 / 10, x + 22 / 10, y + 22 / 10)"
    by (simp add: occupied_region_def footprint_def)
  show "cmds ?st = cmds st @ [DrawTransformer (x, y),
         DrawAnchorLead ''A1'' (- lead, 0), DrawAnchorLead ''A2'' (- lead, 0),
         DrawAnchorLead ''B1'' (lead, 0), DrawAnchorLead ''B2'' (lead, 0)]"
    by (simp add: commit_transformer_def)
  show "list_all (\<lambda>c. \<not> is_hump c) [DrawTransformer (x, y),
         DrawAnchorLead ''A1'' (- lead, 0), DrawAnchorLead ''A2'' (- lead, 0),
         DrawAnchorLead ''B1'' (lead, 0), DrawAnchorLead ''B2'' (lead, 0)]"
    by (simp add: is_hump_def)
qed

lemma commit_two_pin_in_canvas:
  assumes "comps_in_canvas (comps st)"
    and "in_canvas q1 \<and> in_canvas q2 \<and> in_canvas w1 \<and> in_canvas w2"
  shows "comps_in_canvas (comps (commit_two_pin c t e l ori lead q1 q2 w1 w2 bb st))"
  using assms
  by (simp add: comps_in_canvas_def commit_two_pin_def recorded_points_two_pin)

lemma commit_transformer_in_canvas:
  assumes "comps_in_canvas (comps st)"
    and "- 68 / 10 \<le> x \<and> x \<le> 68 / 10 \<and> - 48 / 10 \<le> y \<and> y \<le> 48 / 10"
  shows "comps_in_canvas (comps (commit_transformer x y lead bb st))"
  using assms
  by (simp add: comps_in_canvas_def commit_transformer_def recorded_points_transformer
      in_canvas_def vx1_def vx2_def vy1_def vy2_def)

text \<open>The outcome of one placement call, as the rest of the development uses it.\<close>

lemma place_two_pin_result:
  assumes "place_two_pin c t e l st g = (r, g')"
  shows "(\<exists>m. r = Inl (RuntimeError m) \<and> g' = g\<lparr>pos := pos g + 5 * 4000\<rparr>)
    \<or> (\<exists>st' k. r = Inr st' \<and> k < 4000 \<and> g' = g\<lparr>pos := pos g + 5 * Suc k\<rparr>
         \<and> map cid (comps st') = map cid (comps st) @ [c]
         \<and> map ctype (comps st') = map ctype (comps st) @ [t]
         \<and> (t \<noteq> ''Transformer'' \<longrightarrow> layout_ok st \<longrightarrow> layout_ok st')
         \<and> (unit_tape g \<longrightarrow> comps_in_canvas (comps st) \<longrightarrow> comps_in_canvas (comps st')))"
  using place_two_pin_loop_cases [of 4000 c t e l st g]
proof (elim disjE exE conjE)
  fix m
  assume "place_two_pin_loop 4000 c t e l st g = (Inl (RuntimeError m), g\<lparr>pos := pos g + 5 * 4000\<rparr>)"
  then show ?thesis using assms by (auto simp: place_two_pin_def)
next
  fix k ori lead q1 q2 w1 w2 bb
  assume k: "k < 4000"
    and s: "sample_two_pin (g\<lparr>pos := pos g + 5 * k\<rparr>)
          = ((ori, lead, q1, q2, w1, w2), g\<lparr>pos := pos g + 5 * Suc k\<rparr>)"
    and bb: "rect_from_points [q1, q2, w1, w2] pad = Inr bb"
    and clear: "\<not> list_ex (\<lambda>old. rects_overlap bb old (15 / 100)) (occupied st)"
    and res: "place_two_pin_loop 4000 c t e l st g =
          (Inr (commit_two_pin c t e l ori lead q1 q2 w1 w2 bb st), g\<lparr>pos := pos g + 5 * Suc k\<rparr>)"
  let ?st = "commit_two_pin c t e l ori lead q1 q2 w1 w2 bb st"
  have r: "r = Inr ?st" and g': "g' = g\<lparr>pos := pos g + 5 * Suc k\<rparr>"
    using assms res by (simp_all add: place_two_pin_def)
  have canvas: "in_canvas q1 \<and> in_canvas q2 \<and> in_canvas w1 \<and> in_canvas w2" if "unit_tape g"
    using sample_two_pin_in_canvas [OF _ s] that by simp
  have "map cid (comps ?st) = map cid (comps st) @ [c]"
    "map ctype (comps ?st) = map ctype (comps st) @ [t]"
    by (simp_all add: commit_two_pin_def)
  moreover have "layout_ok ?st" if "t \<noteq> ''Transformer''" "layout_ok st"
    using commit_two_pin_ok [OF that(2,1) bb clear] .
  moreover have "comps_in_canvas (comps ?st)" if "unit_tape g" "comps_in_canvas (comps st)"
    using commit_two_pin_in_canvas [OF that(2) canvas [OF that(1)]] .
  ultimately show ?thesis using r g' k by blast
qed

lemma place_transformer_node_result:
  assumes "place_transformer_node st g = (r, g')"
  shows "(r = Inl (RuntimeError ''Could not place transformer without overlap.'')
          \<and> g' = g\<lparr>pos := pos g + 2 * 4000\<rparr>)
    \<or> (\<exists>st' k. r = Inr st' \<and> k < 4000 \<and> g' = g\<lparr>pos := pos g + 2 * Suc k + 1\<rparr>
         \<and> map cid (comps st') = map cid (comps st) @ [''T1'']
         \<and> map ctype (comps st') = map ctype (comps st) @ [''Transformer'']
         \<and> (\<exists>c rest. cmds st' = cmds st @ DrawTransformer c # rest)
         \<and> (layout_ok st \<longrightarrow> layout_ok st')
         \<and> (unit_tape g \<longrightarrow> comps_in_canvas (comps st) \<longrightarrow> comps_in_canvas (comps st')))"
  using place_transformer_loop_cases [of 4000 st g]
proof (elim disjE exE conjE)
  assume "place_transformer_loop 4000 st g =
    (Inl (RuntimeError ''Could not place transformer without overlap.''), g\<lparr>pos := pos g + 2 * 4000\<rparr>)"
  then show ?thesis using assms by (auto simp: place_transformer_node_def)
next
  fix k and x y lead :: real
  let ?bb = "(x - 22 / 10, y - 22 / 10, x + 22 / 10, y + 22 / 10)"
  assume k: "k < 4000"
    and s: "sample_transformer (g\<lparr>pos := pos g + 2 * k\<rparr>) = ((x, y), g\<lparr>pos := pos g + 2 * Suc k\<rparr>)"
    and clear: "\<not> list_ex (\<lambda>old. rects_overlap ?bb old (15 / 100)) (occupied st)"
    and res: "place_transformer_loop 4000 st g =
          (Inr (commit_transformer x y lead ?bb st), g\<lparr>pos := pos g + 2 * Suc k + 1\<rparr>)"
  let ?st = "commit_transformer x y lead ?bb st"
  have r: "r = Inr ?st" and g': "g' = g\<lparr>pos := pos g + 2 * Suc k + 1\<rparr>"
    using assms res by (simp_all add: place_transformer_node_def)
  have range: "- 68 / 10 \<le> x \<and> x \<le> 68 / 10 \<and> - 48 / 10 \<le> y \<and> y \<le> 48 / 10" if "unit_tape g"
    using sample_transformer_range [OF _ s] that by simp
  have "map cid (comps ?st) = map cid (comps st) @ [''T1'']"
    "map ctype (comps ?st) = map ctype (comps st) @ [''Transformer'']"
    "\<exists>c rest. cmds ?st = cmds st @ DrawTransformer c # rest"
    by (simp_all add: commit_transformer_def)
  moreover have "layout_ok ?st" if "layout_ok st"
    using commit_transformer_ok [OF that clear] .
  moreover have "comps_in_canvas (comps ?st)" if "unit_tape g" "comps_in_canvas (comps st)"
    using commit_transformer_in_canvas [OF that(2) range [OF that(1)]] .
  ultimately show ?thesis using r g' k by blast
qed

lemma place_bipoles_result:
  assumes "place_bipoles specs st g = (r, g')"
    and "list_all (\<lambda>s. fst s \<noteq> ''T1'' \<longrightarrow> fst (snd s) \<noteq> ''Transformer'') specs"
  shows "(\<exists>k. g' = g\<lparr>pos := pos g + k\<rparr>) \<and>
    ((\<exists>m. r = Inl (RuntimeError m))
     \<or> (\<exists>st'. r = Inr st'
         \<and> map cid (comps st') = map cid (comps st) @ filter (\<lambda>c. c \<noteq> ''T1'') (map fst specs)
         \<and> map ctype (comps st') =
             map ctype (comps st) @ map (fst \<circ> snd) (filter (\<lambda>s. fst s \<noteq> ''T1'') specs)
         \<and> (\<exists>new. cmds st' = cmds st @ new)
         \<and> (layout_ok st \<longrightarrow> layout_ok st')
         \<and> (unit_tape g \<longrightarrow> comps_in_canvas (comps st) \<longrightarrow> comps_in_canvas (comps st'))))"
  using assms
proof (induction specs arbitrary: st g)
  case Nil
  then show ?case by (auto intro: exI [of _ 0])
next
  case (Cons sp specs)
  obtain c t e l where sp: "sp = (c, t, e, l)" by (cases sp) auto
  have rest: "list_all (\<lambda>s. fst s \<noteq> ''T1'' \<longrightarrow> fst (snd s) \<noteq> ''Transformer'') specs"
    using Cons.prems(2) by simp
  show ?case
  proof (cases "c = ''T1''")
    case True
    then have "place_bipoles specs st g = (r, g')" using Cons.prems(1) sp by simp
    from Cons.IH [OF this rest] show ?thesis using True sp by simp
  next
    case False
    then have t: "t \<noteq> ''Transformer''" using Cons.prems(2) sp by simp
    obtain r1 g1 where p: "place_two_pin c t e l st g = (r1, g1)" by (cases "place_two_pin c t e l st g")
    from place_two_pin_result [OF p] show ?thesis
    proof (elim disjE exE conjE)
      fix m
      assume "r1 = Inl (RuntimeError m)" "g1 = g\<lparr>pos := pos g + 5 * 4000\<rparr>"
      then have "r = Inl (RuntimeError m) \<and> g' = g\<lparr>pos := pos g + 5 * 4000\<rparr>"
        using Cons.prems(1) sp False p by simp
      then show ?thesis by blast
    next
      fix st1 k
      assume r1: "r1 = Inr st1" and g1: "g1 = g\<lparr>pos := pos g + 5 * Suc k\<rparr>"
        and ids: "map cid (comps st1) = map cid (comps st) @ [c]"
        and tys: "map ctype (comps st1) = map ctype (comps st) @ [t]"
        and ok: "t \<noteq> ''Transformer'' \<longrightarrow> layout_ok st \<longrightarrow> layout_ok st1"
        and cv: "unit_tape g \<longrightarrow> comps_in_canvas (comps st) \<longrightarrow> comps_in_canvas (comps st1)"
      have cm: "\<exists>new. cmds st1 = cmds st @ new"
        using place_two_pin_loop_cases [of 4000 c t e l st g] p r1
        by (auto simp: place_two_pin_def commit_two_pin_def)
      have "place_bipoles specs st1 g1 = (r, g')"
        using Cons.prems(1) sp False p r1 by simp
      from Cons.IH [OF this rest] have
        pos: "\<exists>k. g' = g1\<lparr>pos := pos g1 + k\<rparr>"
        and out: "(\<exists>m. r = Inl (RuntimeError m))
          \<or> (\<exists>st'. r = Inr st'
              \<and> map cid (comps st') = map cid (comps st1) @ filter (\<lambda>c. c \<noteq> ''T1'') (map fst specs)
              \<and> map ctype (comps st') =
                  map ctype (comps st1) @ map (fst \<circ> snd) (filter (\<lambda>s. fst s \<noteq> ''T1'') specs)
              \<and> (\<exists>new. cmds st' = cmds st1 @ new)
              \<and> (layout_ok st1 \<longrightarrow> layout_ok st')
              \<and> (unit_tape g1 \<longrightarrow> comps_in_canvas (comps st1) \<longrightarrow> comps_in_canvas (comps st')))"
        by blast+
      have pos': "\<exists>k. g' = g\<lparr>pos := pos g + k\<rparr>"
      proof -
        from pos obtain j where "g' = g1\<lparr>pos := pos g1 + j\<rparr>" ..
        then have "g' = g\<lparr>pos := pos g + (5 * Suc k + j)\<rparr>" by (simp add: g1)
        then show ?thesis ..
      qed
      from out show ?thesis
      proof (elim disjE exE conjE)
        fix m assume "r = Inl (RuntimeError m)"
        then show ?thesis using pos' by blast
      next
        fix st' new
        assume a: "r = Inr st'"
          "map cid (comps st') = map cid (comps st1) @ filter (\<lambda>c. c \<noteq> ''T1'') (map fst specs)"
          "map ctype (comps st') =
             map ctype (comps st1) @ map (fst \<circ> snd) (filter (\<lambda>s. fst s \<noteq> ''T1'') specs)"
          "cmds st' = cmds st1 @ new"
          "layout_ok st1 \<longrightarrow> layout_ok st'"
          "unit_tape g1 \<longrightarrow> comps_in_canvas (comps st1) \<longrightarrow> comps_in_canvas (comps st')"
        have "map cid (comps st') = map cid (comps st) @ filter (\<lambda>c. c \<noteq> ''T1'') (map fst (sp # specs))"
          using a(2) ids False sp by simp
        moreover have "map ctype (comps st') =
             map ctype (comps st) @ map (fst \<circ> snd) (filter (\<lambda>s. fst s \<noteq> ''T1'') (sp # specs))"
          using a(3) tys False sp by simp
        moreover have "\<exists>new. cmds st' = cmds st @ new" using a(4) cm by auto
        moreover have "layout_ok st \<longrightarrow> layout_ok st'" using a(5) ok t by blast
        moreover have "unit_tape g \<longrightarrow> comps_in_canvas (comps st) \<longrightarrow> comps_in_canvas (comps st')"
          using a(6) cv by (simp add: g1)
        ultimately show ?thesis using a(1) pos' by blast
      qed
    qed
  qed
qed

lemma catalogue_types:
  "list_all (\<lambda>s. fst s \<noteq> ''T1'' \<longrightarrow> fst (snd s) \<noteq> ''Transformer'') component_specs"
  by (simp add: component_specs_def)


lemma generate_scene_success:
  assumes "generate_scene_with_leads g = (Inr sc, g')"
  shows "\<exists>st sty k. add_motifs sty st (g\<lparr>pos := k\<rparr>) = (sc, g')
      \<and> layout_ok st
      \<and> map cid (comps st) = catalogue_ids
      \<and> map ctype (comps st) = catalogue_ctypes
      \<and> (\<exists>c rest. cmds st = DrawTransformer c # rest)
      \<and> (unit_tape g \<longrightarrow> comps_in_canvas (comps st))"
proof -
  let ?g1 = "g\<lparr>pos := Suc (pos g)\<rparr>"
  let ?st0 = "\<lparr>comps = [], cmds = [], occupied = []\<rparr>"
  define sty where "sty = LineWidth (fst (choice [8 / 10, 1, 12 / 10 :: real] g))"
  have ok0: "layout_ok ?st0" by (simp add: layout_ok_def)
  have cv0: "comps_in_canvas (comps ?st0)" by (simp add: comps_in_canvas_def)
  obtain r1 g2 where t: "place_transformer_node ?st0 ?g1 = (r1, g2)"
    by (cases "place_transformer_node ?st0 ?g1")
  obtain st1 where r1: "r1 = Inr st1"
    using assms t by (cases r1) (simp_all add: generate_scene_with_leads_def choice_def)
  from place_transformer_node_result [OF t] r1
  have "\<exists>st' k. r1 = Inr st' \<and> k < 4000 \<and> g2 = ?g1\<lparr>pos := pos ?g1 + 2 * Suc k + 1\<rparr>
         \<and> map cid (comps st') = map cid (comps ?st0) @ [''T1'']
         \<and> map ctype (comps st') = map ctype (comps ?st0) @ [''Transformer'']
         \<and> (\<exists>c rest. cmds st' = cmds ?st0 @ DrawTransformer c # rest)
         \<and> (layout_ok ?st0 \<longrightarrow> layout_ok st')
         \<and> (unit_tape ?g1 \<longrightarrow> comps_in_canvas (comps ?st0) \<longrightarrow> comps_in_canvas (comps st'))"
    by blast
  then obtain k1 where
    g2: "g2 = ?g1\<lparr>pos := pos ?g1 + 2 * Suc k1 + 1\<rparr>"
    and ids1: "map cid (comps st1) = map cid (comps ?st0) @ [''T1'']"
    and tys1: "map ctype (comps st1) = map ctype (comps ?st0) @ [''Transformer'']"
    and cm1': "\<exists>c rest. cmds st1 = cmds ?st0 @ DrawTransformer c # rest"
    and ok1': "layout_ok ?st0 \<longrightarrow> layout_ok st1"
    and cv1': "unit_tape ?g1 \<longrightarrow> comps_in_canvas (comps ?st0) \<longrightarrow> comps_in_canvas (comps st1)"
    using r1 by blast
  have cm1: "\<exists>c rest. cmds st1 = DrawTransformer c # rest" using cm1' by simp
  have ok1: "layout_ok st1" using ok1' ok0 by simp
  have cv1: "unit_tape g \<longrightarrow> comps_in_canvas (comps st1)" using cv1' cv0 by simp
  obtain r2 g3 where b: "place_bipoles component_specs st1 g2 = (r2, g3)"
    by (cases "place_bipoles component_specs st1 g2")
  obtain st2 where r2: "r2 = Inr st2"
    using assms t r1 b
    by (cases r2) (simp_all add: generate_scene_with_leads_def choice_def split_beta)
  from place_bipoles_result [OF b catalogue_types] r2
  have "(\<exists>k. g3 = g2\<lparr>pos := pos g2 + k\<rparr>) \<and>
    (\<exists>st'. r2 = Inr st'
         \<and> map cid (comps st') = map cid (comps st1) @ filter (\<lambda>c. c \<noteq> ''T1'') (map fst component_specs)
         \<and> map ctype (comps st') =
             map ctype (comps st1) @ map (fst \<circ> snd) (filter (\<lambda>s. fst s \<noteq> ''T1'') component_specs)
         \<and> (\<exists>new. cmds st' = cmds st1 @ new)
         \<and> (layout_ok st1 \<longrightarrow> layout_ok st')
         \<and> (unit_tape g2 \<longrightarrow> comps_in_canvas (comps st1) \<longrightarrow> comps_in_canvas (comps st')))"
    by blast
  then obtain k2 new where
    g3: "g3 = g2\<lparr>pos := pos g2 + k2\<rparr>"
    and ids2: "map cid (comps st2) = map cid (comps st1) @ filter (\<lambda>c. c \<noteq> ''T1'') (map fst component_specs)"
    and tys2: "map ctype (comps st2) =
             map ctype (comps st1) @ map (fst \<circ> snd) (filter (\<lambda>s. fst s \<noteq> ''T1'') component_specs)"
    and cm2: "cmds st2 = cmds st1 @ new"
    and ok2: "layout_ok st1 \<longrightarrow> layout_ok st2"
    and cv2: "unit_tape g2 \<longrightarrow> comps_in_canvas (comps st1) \<longrightarrow> comps_in_canvas (comps st2)"
    using r2 by blast
  have g3': "g3 = g\<lparr>pos := pos g3\<rparr>" by (simp add: g3 g2)
  have "add_motifs sty st2 g3 = (sc, g')"
    using assms t r1 b r2
    by (simp add: generate_scene_with_leads_def choice_def split_beta sty_def prod_eq_iff)
  then have "add_motifs sty st2 (g\<lparr>pos := pos g3\<rparr>) = (sc, g')" using g3' by simp
  moreover have "layout_ok st2" using ok1 ok2 by simp
  moreover have "map cid (comps st2) = catalogue_ids"
    by (simp add: ids2 ids1 component_specs_def catalogue_ids_def)
  moreover have "map ctype (comps st2) = catalogue_ctypes"
    by (simp add: tys2 tys1 component_specs_def catalogue_ctypes_def)
  moreover have "\<exists>c rest. cmds st2 = DrawTransformer c # rest" using cm1 cm2 by auto
  moreover have "unit_tape g \<longrightarrow> comps_in_canvas (comps st2)"
    using cv1 cv2 by (simp add: g2)
  ultimately show ?thesis by blast
qed

subsection \<open>The forced motifs\<close>

lemma add_motifs_components:
  "add_motifs sty st g = ((sty', body, cs, ms), g') \<Longrightarrow> sty' = sty \<and> cs = comps st"
  by (auto simp: add_motifs_def split_beta Let_def)

lemma add_motifs_markers:
  assumes "add_motifs sty st g = ((sty', body, cs, ms), g')"
  shows "map mid ms = [''JUNC1'', ''JUMP1''] \<and> map mtype ms = [''junction'', ''wire_jump'']
    \<and> mid (ms ! 1) = ''JUMP1'' \<and> mtype (ms ! 1) = ''wire_jump''
    \<and> mattrs (ms ! 0) = [(''min_degree'', AInt 3)]
    \<and> mattrs (ms ! 1) = [(''gap'', ANum (30 / 100)), (''hump_h'', ANum (30 / 100))]"
  using assms by (auto simp: add_motifs_def split_beta Let_def)

lemma add_motifs_centres:
  assumes "unit_tape g" "add_motifs sty st g = ((sty', body, cs, ms), g')"
  shows "list_all (\<lambda>m. in_canvas (center m)) ms"
proof -
  have u: "0 \<le> units h n \<and> units h n \<le> 1" if "units h = units g" for h :: rng and n
    using assms(1) that by (simp add: unit_tape_def)
  define g4 where "g4 = g\<lparr>pos := Suc (pos g)\<rparr>"
  define g5 where "g5 = g\<lparr>pos := Suc (Suc (pos g))\<rparr>"
  define g6 where "g6 = g\<lparr>pos := Suc (Suc (Suc (pos g)))\<rparr>"
  define jx where "jx = fst (uniform (vx1 + margin + 25 / 10) (vx2 - margin - 25 / 10) g)"
  define jy where "jy = fst (uniform (vy1 + margin + 25 / 10) (vy2 - margin - 25 / 10) g4)"
  define cx where "cx = fst (uniform (vx1 + margin + 3) (vx2 - margin - 3) g5)"
  define cy where "cy = fst (uniform (vy1 + margin + 3) (vy2 - margin - 3) g6)"
  have jx: "vx1 + margin + 25 / 10 \<le> jx \<and> jx \<le> vx2 - margin - 25 / 10"
    unfolding jx_def
    by (rule uniform_between) (use u [of g] in \<open>simp_all add: vx1_def vx2_def margin_def\<close>)
  have jy: "vy1 + margin + 25 / 10 \<le> jy \<and> jy \<le> vy2 - margin - 25 / 10"
    unfolding jy_def
    by (rule uniform_between) (use u [of g4] in \<open>simp_all add: g4_def vy1_def vy2_def margin_def\<close>)
  have cx: "vx1 + margin + 3 \<le> cx \<and> cx \<le> vx2 - margin - 3"
    unfolding cx_def
    by (rule uniform_between) (use u [of g5] in \<open>simp_all add: g5_def vx1_def vx2_def margin_def\<close>)
  have cy: "vy1 + margin + 3 \<le> cy \<and> cy \<le> vy2 - margin - 3"
    unfolding cy_def
    by (rule uniform_between) (use u [of g6] in \<open>simp_all add: g6_def vy1_def vy2_def margin_def\<close>)
  have "map center ms = [(jx, jy), (cx, cy)]"
    using assms(2)
    by (auto simp: add_motifs_def split_beta Let_def jx_def jy_def cx_def cy_def g4_def g5_def g6_def)
  then have "list_all in_canvas (map center ms)"
    using jx jy cx cy by (simp add: in_canvas_def vx1_def vx2_def vy1_def vy2_def margin_def)
  then show ?thesis by (simp add: list_all_iff)
qed

lemma add_motifs_body:
  assumes "add_motifs sty st g = ((sty', body, cs, ms), g')"
  shows "\<exists>mid_cmds. body = UseBoundingBox (vx1, vy1) (vx2, vy2) # cmds st @ mid_cmds @
      (let (cx, cy) = center (ms ! 1) in
       [DrawLine (cx, cy - 22 / 10) (cx, cy + 22 / 10),
        DrawLine (cx - 24 / 10, cy) (cx - 30 / 100, cy),
        DrawHump (cx - 30 / 100, cy) (cx - 30 / 100, cy + 30 / 100)
                 (cx + 30 / 100, cy + 30 / 100) (cx + 30 / 100, cy),
        DrawLine (cx + 30 / 100, cy) (cx + 24 / 10, cy)])
     \<and> list_all (\<lambda>c. \<not> is_hump c) mid_cmds \<and> length mid_cmds = 4"
proof -
  define jx where "jx = fst (uniform (vx1 + margin + 25 / 10) (vx2 - margin - 25 / 10) g)"
  define jy where "jy = fst (uniform (vy1 + margin + 25 / 10) (vy2 - margin - 25 / 10)
      (g\<lparr>pos := Suc (pos g)\<rparr>))"
  let ?mid = "[DrawLine (jx - 2, jy) (jx, jy), DrawLine (jx, jy) (jx + 2, jy),
             DrawLine (jx, jy) (jx, jy + 2), tikz_junction jx jy (17 / 10)]"
  have "body = UseBoundingBox (vx1, vy1) (vx2, vy2) # cmds st @ ?mid @
      (let (cx, cy) = center (ms ! 1) in
       [DrawLine (cx, cy - 22 / 10) (cx, cy + 22 / 10),
        DrawLine (cx - 24 / 10, cy) (cx - 30 / 100, cy),
        DrawHump (cx - 30 / 100, cy) (cx - 30 / 100, cy + 30 / 100)
                 (cx + 30 / 100, cy + 30 / 100) (cx + 30 / 100, cy),
        DrawLine (cx + 30 / 100, cy) (cx + 24 / 10, cy)])"
    using assms
    by (auto simp: add_motifs_def split_beta Let_def jx_def jy_def tikz_wire_jump_def)
  moreover have "list_all (\<lambda>c. \<not> is_hump c) ?mid \<and> length ?mid = 4"
    by (simp add: is_hump_def tikz_junction_def)
  ultimately show ?thesis by blast
qed

section \<open>Properties of a generated scene\<close>

lemma sorted_wrt_clear:
  assumes "sorted_wrt (\<lambda>a b. \<not> rects_overlap a b t) rs" "i < length rs" "j < length rs" "i \<noteq> j"
  shows "\<not> rects_overlap (rs ! i) (rs ! j) t"
proof (cases "i < j")
  case True
  then show ?thesis using assms by (simp add: sorted_wrt_iff_nth_less)
next
  case False
  then have "j < i" using assms(4) by simp
  then have "\<not> rects_overlap (rs ! j) (rs ! i) t"
    using assms by (simp add: sorted_wrt_iff_nth_less)
  then show ?thesis by (simp add: rects_overlap_sym [of "rs ! i"])
qed

text \<open>
  C1, as the code has it. In every scene of a successful run, the regions the placements
  committed are pairwise clear of each other under the tolerance \<open>0.15\<close>: for every
  two-terminal record the region is the bounding box of its recorded points padded by
  \<open>0.85\<close>, as \<open>rect_from_points\<close> computes it; for the transformer, the first record,
  it is the fixed footprint of half-extent \<open>2.2\<close> around its centre.
\<close>

theorem occupied_regions_clear:
  assumes "generate_scene_with_leads g = (Inr (sty, body, cs, ms), g')"
    and "i < length cs" "j < length cs" "i \<noteq> j"
  shows "\<not> rects_overlap (occupied_region (cs ! i)) (occupied_region (cs ! j)) (15 / 100)
    \<and> occupied_region (cs ! 0) = footprint (cs ! 0)
    \<and> (0 < i \<longrightarrow> rect_from_points (recorded_points (cs ! i)) pad = Inr (occupied_region (cs ! i)))"
proof -
  from generate_scene_success [OF assms(1)] obtain st sty0 k where
    m: "add_motifs sty0 st (g\<lparr>pos := k\<rparr>) = ((sty, body, cs, ms), g')"
    and ok: "layout_ok st" and tys: "map ctype (comps st) = catalogue_ctypes"
    by blast
  have cs: "cs = comps st" using add_motifs_components [OF m] by simp
  have occ: "occupied st = map occupied_region cs"
    using ok unfolding layout_ok_def cs by blast
  have sep: "sorted_wrt (\<lambda>a b. \<not> rects_overlap a b (15 / 100)) (occupied st)"
    using ok unfolding layout_ok_def by blast
  have "\<not> rects_overlap (occupied st ! i) (occupied st ! j) (15 / 100)"
    using sorted_wrt_clear [OF sep] assms(2-4) by (simp add: occ)
  then have clear: "\<not> rects_overlap (occupied_region (cs ! i)) (occupied_region (cs ! j)) (15 / 100)"
    using assms(2,3) by (simp add: occ)
  have tys': "map ctype cs = catalogue_ctypes" using tys cs by simp
  have ne: "cs \<noteq> []" using tys' by (auto simp: catalogue_ctypes_def)
  have "hd (map ctype cs) = ''Transformer''" by (simp add: tys' catalogue_ctypes_def)
  then have "ctype (cs ! 0) = ''Transformer''" using ne by (simp add: hd_map hd_conv_nth)
  then have first: "occupied_region (cs ! 0) = footprint (cs ! 0)" by (simp add: occupied_region_def)
  have "ctype (cs ! i) \<noteq> ''Transformer''" if "0 < i"
  proof -
    have "''Transformer'' \<notin> set (tl (map ctype cs))" by (simp add: tys' catalogue_ctypes_def)
    then have no: "''Transformer'' \<notin> set (map ctype (tl cs))" by (simp add: map_tl)
    have "i - 1 < length (tl cs)" using that assms(2) by simp
    then have "tl cs ! (i - 1) \<in> set (tl cs)" by (rule nth_mem)
    moreover have "tl cs ! (i - 1) = cs ! i" using that assms(2) by (simp add: nth_tl)
    ultimately have "ctype (cs ! i) \<in> set (map ctype (tl cs))" by auto
    with no show ?thesis by auto
  qed
  then have "0 < i \<longrightarrow> rect_from_points (recorded_points (cs ! i)) pad = Inr (occupied_region (cs ! i))"
    by (simp add: occupied_region_def padded_box_rect_from_points)
  with clear first show ?thesis by blast
qed

text \<open>
  C2. With a random source that keeps the contract of \<open>random()\<close>, every coordinate
  recorded in a scene of a successful run lies within the canvas bounds \<open>(-10, -8)\<close> to
  \<open>(10, 8)\<close>: \<open>p1\<close>, \<open>p2\<close> and every point held in the attributes of a component
  record (the two lead endpoints), and the centre of every marker.
\<close>

theorem scene_within_canvas:
  assumes "unit_tape g" "generate_scene_with_leads g = (Inr (sty, body, cs, ms), g')"
  shows "(\<forall>c \<in> set cs. in_canvas (p1 c) \<and> in_canvas (p2 c)
            \<and> (\<forall>p \<in> set (attr_points (attrs c)). in_canvas p))
    \<and> (\<forall>m \<in> set ms. in_canvas (center m))"
proof -
  from generate_scene_success [OF assms(2)] obtain st sty0 k where
    m: "add_motifs sty0 st (g\<lparr>pos := k\<rparr>) = ((sty, body, cs, ms), g')"
    and cv: "unit_tape g \<longrightarrow> comps_in_canvas (comps st)"
    by blast
  have cs: "cs = comps st" using add_motifs_components [OF m] by simp
  have "comps_in_canvas cs" using cv assms(1) cs by simp
  then have a: "\<forall>c \<in> set cs. in_canvas (p1 c) \<and> in_canvas (p2 c)
            \<and> (\<forall>p \<in> set (attr_points (attrs c)). in_canvas p)"
    by (simp add: comps_in_canvas_def list_all_iff recorded_points_def)
  have "list_all (\<lambda>m. in_canvas (center m)) ms"
    using add_motifs_centres [OF _ m] assms(1) by simp
  then have "\<forall>m \<in> set ms. in_canvas (center m)" by (simp add: list_all_iff)
  with a show ?thesis by blast
qed

text \<open>
  C3. A scene of a successful run has exactly 11 component records, the length of the
  catalogue, and exactly two markers: one \<open>junction\<close> followed by one \<open>wire_jump\<close>.
\<close>

theorem scene_complete:
  assumes "generate_scene_with_leads g = (Inr (sty, body, cs, ms), g')"
  shows "length cs = 11 \<and> length cs = length component_specs
    \<and> length ms = 2 \<and> map mtype ms = [''junction'', ''wire_jump'']"
proof -
  from generate_scene_success [OF assms] obtain st sty0 k where
    m: "add_motifs sty0 st (g\<lparr>pos := k\<rparr>) = ((sty, body, cs, ms), g')"
    and ids: "map cid (comps st) = catalogue_ids"
    by blast
  have cs: "cs = comps st" using add_motifs_components [OF m] by simp
  have "length (map cid cs) = length catalogue_ids" using ids cs by simp
  then have len: "length cs = 11" by (simp add: catalogue_ids_def)
  have ty: "map mtype ms = [''junction'', ''wire_jump'']" using add_motifs_markers [OF m] by simp
  then have "length (map mtype ms) = 2" by simp
  then have "length ms = 2" by simp
  with len ty show ?thesis by (simp add: component_specs_def)
qed

text \<open>
  C9. In a scene of a successful run the transformer is placed before all two-terminal
  elements: its record is the first of the component list, the records after it are
  those of the catalogue without \<open>T1\<close>, in catalogue order, none of them a transformer,
  and its node is the first instruction drawn inside the bounding box.
\<close>

theorem transformer_first:
  assumes "generate_scene_with_leads g = (Inr (sty, body, cs, ms), g')"
  shows "cs \<noteq> [] \<and> cid (hd cs) = ''T1'' \<and> ctype (hd cs) = ''Transformer''
    \<and> map cid (tl cs) = filter (\<lambda>c. c \<noteq> ''T1'') (map fst component_specs)
    \<and> ''Transformer'' \<notin> set (map ctype (tl cs))
    \<and> (\<exists>c rest. body = UseBoundingBox (vx1, vy1) (vx2, vy2) # DrawTransformer c # rest)"
proof -
  from generate_scene_success [OF assms] obtain st sty0 k where
    m: "add_motifs sty0 st (g\<lparr>pos := k\<rparr>) = ((sty, body, cs, ms), g')"
    and ids: "map cid (comps st) = catalogue_ids"
    and tys: "map ctype (comps st) = catalogue_ctypes"
    and cm: "\<exists>c rest. cmds st = DrawTransformer c # rest"
    by blast
  have cs: "cs = comps st" using add_motifs_components [OF m] by simp
  have ne: "cs \<noteq> []" using ids cs by (auto simp: catalogue_ids_def)
  have "hd (map cid cs) = ''T1''" "hd (map ctype cs) = ''Transformer''"
    "tl (map cid cs) = filter (\<lambda>c. c \<noteq> ''T1'') (map fst component_specs)"
    "''Transformer'' \<notin> set (tl (map ctype cs))"
    using ids tys cs by (simp_all add: catalogue_ids_def catalogue_ctypes_def component_specs_def)
  then have a: "cid (hd cs) = ''T1''" "ctype (hd cs) = ''Transformer''"
    "map cid (tl cs) = filter (\<lambda>c. c \<noteq> ''T1'') (map fst component_specs)"
    "''Transformer'' \<notin> set (map ctype (tl cs))"
    using ne by (simp_all add: hd_map map_tl)
  from add_motifs_body [OF m] cm
  have "\<exists>c rest. body = UseBoundingBox (vx1, vy1) (vx2, vy2) # DrawTransformer c # rest"
    by auto
  with ne a show ?thesis by blast
qed

text \<open>
  C10. In a scene of a successful run the second marker is the wire jump; its attributes
  are the constants \<open>gap = 0.30\<close> and \<open>hump_h = 0.30\<close> whatever the random source; the
  drawing ends with the vertical wire, the horizontal segment that stops at
  \<open>cx - 0.30\<close>, the hump from \<open>cx - 0.30\<close> to \<open>cx + 0.30\<close> of height \<open>0.30\<close>, and the
  segment that starts at \<open>cx + 0.30\<close>; and the drawing holds exactly one hump.
\<close>

theorem wire_jump_fixed:
  assumes "generate_scene_with_leads g = (Inr (sty, body, cs, ms), g')"
  shows "mtype (ms ! 1) = ''wire_jump''
    \<and> mattrs (ms ! 1) = [(''gap'', ANum (30 / 100)), (''hump_h'', ANum (30 / 100))]
    \<and> (\<exists>before. body = before @
         (let (cx, cy) = center (ms ! 1) in
          [DrawLine (cx, cy - 22 / 10) (cx, cy + 22 / 10),
           DrawLine (cx - 24 / 10, cy) (cx - 30 / 100, cy),
           DrawHump (cx - 30 / 100, cy) (cx - 30 / 100, cy + 30 / 100)
                    (cx + 30 / 100, cy + 30 / 100) (cx + 30 / 100, cy),
           DrawLine (cx + 30 / 100, cy) (cx + 24 / 10, cy)]))
    \<and> length (filter is_hump body) = 1"
proof -
  from generate_scene_success [OF assms] obtain st sty0 k where
    m: "add_motifs sty0 st (g\<lparr>pos := k\<rparr>) = ((sty, body, cs, ms), g')"
    and ok: "layout_ok st"
    by blast
  let ?tail = "(let (cx, cy) = center (ms ! 1) in
          [DrawLine (cx, cy - 22 / 10) (cx, cy + 22 / 10),
           DrawLine (cx - 24 / 10, cy) (cx - 30 / 100, cy),
           DrawHump (cx - 30 / 100, cy) (cx - 30 / 100, cy + 30 / 100)
                    (cx + 30 / 100, cy + 30 / 100) (cx + 30 / 100, cy),
           DrawLine (cx + 30 / 100, cy) (cx + 24 / 10, cy)])"
  from add_motifs_body [OF m] obtain mid_cmds where
    body: "body = UseBoundingBox (vx1, vy1) (vx2, vy2) # cmds st @ mid_cmds @ ?tail"
    and mid: "list_all (\<lambda>c. \<not> is_hump c) mid_cmds"
    by blast
  have st: "list_all (\<lambda>c. \<not> is_hump c) (cmds st)" using ok by (simp add: layout_ok_def)
  have none: "filter is_hump xs = []" if "list_all (\<lambda>c. \<not> is_hump c) xs" for xs
    using that by (simp add: list_all_iff filter_empty_conv)
  have tail: "filter is_hump ?tail = [hd (filter is_hump ?tail)]"
    by (simp add: split_beta is_hump_def)
  have "filter is_hump body = filter is_hump ?tail"
    by (simp add: body none [OF st] none [OF mid] is_hump_def)
  then have "length (filter is_hump body) = length [hd (filter is_hump ?tail)]" using tail by simp
  then have one: "length (filter is_hump body) = 1" by simp
  have "body = (UseBoundingBox (vx1, vy1) (vx2, vy2) # cmds st @ mid_cmds) @ ?tail"
    using body by simp
  then have ex: "\<exists>before. body = before @ ?tail"
    by (rule exI [where x = "UseBoundingBox (vx1, vy1) (vx2, vy2) # cmds st @ mid_cmds"])
  have ty: "mtype (ms ! 1) = ''wire_jump''"
    and at: "mattrs (ms ! 1) = [(''gap'', ANum (30 / 100)), (''hump_h'', ANum (30 / 100))]"
    using add_motifs_markers [OF m] by simp_all
  show ?thesis using ty at ex one by (intro conjI)
qed

section \<open>The placement budget and the retry wrapper\<close>









section \<open>The run on the demo tape\<close>

lemma place_two_pin_accept_eq:
  assumes "sample_two_pin g = ((ori, lead, q1, q2, w1, w2), g')"
    and "rect_from_points [q1, q2, w1, w2] pad = Inr bb"
    and "\<not> list_ex (\<lambda>old. rects_overlap bb old (15 / 100)) (occupied st)"
  shows "place_two_pin_loop (Suc n) c t e l st g =
     (Inr (commit_two_pin c t e l ori lead q1 q2 w1 w2 bb st), g')"
  using assms by simp

lemma place_two_pin_reject_eq:
  assumes "sample_two_pin g = ((ori, lead, q1, q2, w1, w2), g')"
    and "rect_from_points [q1, q2, w1, w2] pad = Inr bb"
    and "list_ex (\<lambda>old. rects_overlap bb old (15 / 100)) (occupied st)"
  shows "place_two_pin_loop (Suc n) c t e l st g = place_two_pin_loop n c t e l st g'"
  using assms by simp

lemma demo_rng_at [simp]:
  "picks (demo_rng\<lparr>pos := k\<rparr>) = picks demo_rng" "units (demo_rng\<lparr>pos := k\<rparr>) = units demo_rng"
  "pos (demo_rng\<lparr>pos := k\<rparr>) = k" "demo_rng\<lparr>pos := k\<rparr>\<lparr>pos := j\<rparr> = demo_rng\<lparr>pos := j\<rparr>"
  by simp_all

lemma demo_draws:
  "picks demo_rng = (\<lambda>n. if n < length demo_tape then fst (demo_tape ! n) else 0)"
  "units demo_rng = (\<lambda>n. if n < length demo_tape then snd (demo_tape ! n) else 1 / 2)"
  by (simp_all add: demo_rng_def)

lemma demo_sample_0:
  "sample_two_pin (demo_rng\<lparr>pos := 4\<rparr>) =
     ((''h'', 4 / 5, (- (4 / 5), 0), (4 / 5, 0), (- (8 / 5), 0), (8 / 5, 0)),
      demo_rng\<lparr>pos := 9\<rparr>)"
  by (simp add: sample_two_pin_def choice_def uniform_def demo_draws demo_tape_def
      vx1_def vx2_def vy1_def vy2_def margin_def comp_len_choices_def lead_len_choices_def)

lemma demo_box_0:
  "rect_from_points [(- (4 / 5), 0), (4 / 5, 0), (- (8 / 5), 0), (8 / 5, 0)] pad =
     Inr (- (49 / 20), - (17 / 20), 49 / 20, 17 / 20)"
  by (simp add: rect_from_points_def py_min_def py_max_def pad_def)

lemma demo_sample_1:
  "sample_two_pin (demo_rng\<lparr>pos := 9\<rparr>) =
     ((''h'', 4 / 5, (- (4 / 5), 17 / 5), (4 / 5, 17 / 5), (- (8 / 5), 17 / 5), (8 / 5, 17 / 5)),
      demo_rng\<lparr>pos := 14\<rparr>)"
  by (simp add: sample_two_pin_def choice_def uniform_def demo_draws demo_tape_def
      vx1_def vx2_def vy1_def vy2_def margin_def comp_len_choices_def lead_len_choices_def)

lemma demo_box_1:
  "rect_from_points [(- (4 / 5), 17 / 5), (4 / 5, 17 / 5), (- (8 / 5), 17 / 5), (8 / 5, 17 / 5)] pad =
     Inr (- (49 / 20), 51 / 20, 49 / 20, 17 / 4)"
  by (simp add: rect_from_points_def py_min_def py_max_def pad_def)

lemma demo_sample_2:
  "sample_two_pin (demo_rng\<lparr>pos := 14\<rparr>) =
     ((''h'', 4 / 5, (- (31 / 5), - (119 / 20)), (- (23 / 5), - (119 / 20)), (- 7, - (119 / 20)), (- (19 / 5), - (119 / 20))),
      demo_rng\<lparr>pos := 19\<rparr>)"
  by (simp add: sample_two_pin_def choice_def uniform_def demo_draws demo_tape_def
      vx1_def vx2_def vy1_def vy2_def margin_def comp_len_choices_def lead_len_choices_def)

lemma demo_box_2:
  "rect_from_points [(- (31 / 5), - (119 / 20)), (- (23 / 5), - (119 / 20)), (- 7, - (119 / 20)), (- (19 / 5), - (119 / 20))] pad =
     Inr (- (157 / 20), - (34 / 5), - (59 / 20), - (51 / 10))"
  by (simp add: rect_from_points_def py_min_def py_max_def pad_def)

lemma demo_sample_3:
  "sample_two_pin (demo_rng\<lparr>pos := 19\<rparr>) =
     ((''h'', 4 / 5, (- (4 / 5), - (119 / 20)), (4 / 5, - (119 / 20)), (- (8 / 5), - (119 / 20)), (8 / 5, - (119 / 20))),
      demo_rng\<lparr>pos := 24\<rparr>)"
  by (simp add: sample_two_pin_def choice_def uniform_def demo_draws demo_tape_def
      vx1_def vx2_def vy1_def vy2_def margin_def comp_len_choices_def lead_len_choices_def)

lemma demo_box_3:
  "rect_from_points [(- (4 / 5), - (119 / 20)), (4 / 5, - (119 / 20)), (- (8 / 5), - (119 / 20)), (8 / 5, - (119 / 20))] pad =
     Inr (- (49 / 20), - (34 / 5), 49 / 20, - (51 / 10))"
  by (simp add: rect_from_points_def py_min_def py_max_def pad_def)

lemma demo_sample_4:
  "sample_two_pin (demo_rng\<lparr>pos := 24\<rparr>) =
     ((''h'', 4 / 5, (23 / 5, - (119 / 20)), (31 / 5, - (119 / 20)), (19 / 5, - (119 / 20)), (7, - (119 / 20))),
      demo_rng\<lparr>pos := 29\<rparr>)"
  by (simp add: sample_two_pin_def choice_def uniform_def demo_draws demo_tape_def
      vx1_def vx2_def vy1_def vy2_def margin_def comp_len_choices_def lead_len_choices_def)

lemma demo_box_4:
  "rect_from_points [(23 / 5, - (119 / 20)), (31 / 5, - (119 / 20)), (19 / 5, - (119 / 20)), (7, - (119 / 20))] pad =
     Inr (59 / 20, - (34 / 5), 157 / 20, - (51 / 10))"
  by (simp add: rect_from_points_def py_min_def py_max_def pad_def)

lemma demo_sample_5:
  "sample_two_pin (demo_rng\<lparr>pos := 29\<rparr>) =
     ((''h'', 4 / 5, (- (31 / 5), - (17 / 5)), (- (23 / 5), - (17 / 5)), (- 7, - (17 / 5)), (- (19 / 5), - (17 / 5))),
      demo_rng\<lparr>pos := 34\<rparr>)"
  by (simp add: sample_two_pin_def choice_def uniform_def demo_draws demo_tape_def
      vx1_def vx2_def vy1_def vy2_def margin_def comp_len_choices_def lead_len_choices_def)

lemma demo_box_5:
  "rect_from_points [(- (31 / 5), - (17 / 5)), (- (23 / 5), - (17 / 5)), (- 7, - (17 / 5)), (- (19 / 5), - (17 / 5))] pad =
     Inr (- (157 / 20), - (17 / 4), - (59 / 20), - (51 / 20))"
  by (simp add: rect_from_points_def py_min_def py_max_def pad_def)

lemma demo_sample_6:
  "sample_two_pin (demo_rng\<lparr>pos := 34\<rparr>) =
     ((''h'', 4 / 5, (- (4 / 5), - (17 / 5)), (4 / 5, - (17 / 5)), (- (8 / 5), - (17 / 5)), (8 / 5, - (17 / 5))),
      demo_rng\<lparr>pos := 39\<rparr>)"
  by (simp add: sample_two_pin_def choice_def uniform_def demo_draws demo_tape_def
      vx1_def vx2_def vy1_def vy2_def margin_def comp_len_choices_def lead_len_choices_def)

lemma demo_box_6:
  "rect_from_points [(- (4 / 5), - (17 / 5)), (4 / 5, - (17 / 5)), (- (8 / 5), - (17 / 5)), (8 / 5, - (17 / 5))] pad =
     Inr (- (49 / 20), - (17 / 4), 49 / 20, - (51 / 20))"
  by (simp add: rect_from_points_def py_min_def py_max_def pad_def)

lemma demo_sample_7:
  "sample_two_pin (demo_rng\<lparr>pos := 39\<rparr>) =
     ((''h'', 4 / 5, (23 / 5, - (17 / 5)), (31 / 5, - (17 / 5)), (19 / 5, - (17 / 5)), (7, - (17 / 5))),
      demo_rng\<lparr>pos := 44\<rparr>)"
  by (simp add: sample_two_pin_def choice_def uniform_def demo_draws demo_tape_def
      vx1_def vx2_def vy1_def vy2_def margin_def comp_len_choices_def lead_len_choices_def)

lemma demo_box_7:
  "rect_from_points [(23 / 5, - (17 / 5)), (31 / 5, - (17 / 5)), (19 / 5, - (17 / 5)), (7, - (17 / 5))] pad =
     Inr (59 / 20, - (17 / 4), 157 / 20, - (51 / 20))"
  by (simp add: rect_from_points_def py_min_def py_max_def pad_def)

lemma demo_sample_8:
  "sample_two_pin (demo_rng\<lparr>pos := 44\<rparr>) =
     ((''h'', 4 / 5, (- (31 / 5), 119 / 20), (- (23 / 5), 119 / 20), (- 7, 119 / 20), (- (19 / 5), 119 / 20)),
      demo_rng\<lparr>pos := 49\<rparr>)"
  by (simp add: sample_two_pin_def choice_def uniform_def demo_draws demo_tape_def
      vx1_def vx2_def vy1_def vy2_def margin_def comp_len_choices_def lead_len_choices_def)

lemma demo_box_8:
  "rect_from_points [(- (31 / 5), 119 / 20), (- (23 / 5), 119 / 20), (- 7, 119 / 20), (- (19 / 5), 119 / 20)] pad =
     Inr (- (157 / 20), 51 / 10, - (59 / 20), 34 / 5)"
  by (simp add: rect_from_points_def py_min_def py_max_def pad_def)

lemma demo_sample_9:
  "sample_two_pin (demo_rng\<lparr>pos := 49\<rparr>) =
     ((''h'', 4 / 5, (- (4 / 5), 119 / 20), (4 / 5, 119 / 20), (- (8 / 5), 119 / 20), (8 / 5, 119 / 20)),
      demo_rng\<lparr>pos := 54\<rparr>)"
  by (simp add: sample_two_pin_def choice_def uniform_def demo_draws demo_tape_def
      vx1_def vx2_def vy1_def vy2_def margin_def comp_len_choices_def lead_len_choices_def)

lemma demo_box_9:
  "rect_from_points [(- (4 / 5), 119 / 20), (4 / 5, 119 / 20), (- (8 / 5), 119 / 20), (8 / 5, 119 / 20)] pad =
     Inr (- (49 / 20), 51 / 10, 49 / 20, 34 / 5)"
  by (simp add: rect_from_points_def py_min_def py_max_def pad_def)

lemma demo_sample_10:
  "sample_two_pin (demo_rng\<lparr>pos := 54\<rparr>) =
     ((''v'', 6 / 5, (- (33 / 5), 1 / 40), (- (33 / 5), 89 / 40), (- (33 / 5), - (47 / 40)), (- (33 / 5), 137 / 40)),
      demo_rng\<lparr>pos := 59\<rparr>)"
  by (simp add: sample_two_pin_def choice_def uniform_def demo_draws demo_tape_def
      vx1_def vx2_def vy1_def vy2_def margin_def comp_len_choices_def lead_len_choices_def)

lemma demo_box_10:
  "rect_from_points [(- (33 / 5), 1 / 40), (- (33 / 5), 89 / 40), (- (33 / 5), - (47 / 40)), (- (33 / 5), 137 / 40)] pad =
     Inr (- (149 / 20), - (81 / 40), - (23 / 4), 171 / 40)"
  by (simp add: rect_from_points_def py_min_def py_max_def pad_def)

lemma occupied_commit_two_pin [simp]:
  "occupied (commit_two_pin c t e l ori lead q1 q2 w1 w2 bb st) = occupied st @ [bb]"
  by (simp add: commit_two_pin_def)

lemma occupied_commit_transformer [simp]:
  "occupied (commit_transformer x y lead bb st) = occupied st @ [bb]"
  by (simp add: commit_transformer_def)

lemma place_transformer_accept_eq:
  assumes "sample_transformer g = ((x, y), g2)"
    and "\<not> list_ex (\<lambda>old. rects_overlap (x - 22 / 10, y - 22 / 10, x + 22 / 10, y + 22 / 10)
            old (15 / 100)) (occupied st)"
    and "choice [9 / 10, 11 / 10, 13 / 10] g2 = (lead, g3)"
  shows "place_transformer_loop (Suc n) st g =
     (Inr (commit_transformer x y lead (x - 22 / 10, y - 22 / 10, x + 22 / 10, y + 22 / 10) st), g3)"
  using assms by simp

lemma demo_transformer:
  "place_transformer_node \<lparr>comps = [], cmds = [], occupied = []\<rparr> (demo_rng\<lparr>pos := Suc 0\<rparr>) =
     (Inr (commit_transformer 0 0 (13 / 10) (- (11 / 5), - (11 / 5), 11 / 5, 11 / 5)
             \<lparr>comps = [], cmds = [], occupied = []\<rparr>), demo_rng\<lparr>pos := 4\<rparr>)"
proof -
  have s: "sample_transformer (demo_rng\<lparr>pos := Suc 0\<rparr>) = ((0, 0), demo_rng\<lparr>pos := 3\<rparr>)"
    by (simp add: sample_transformer_def uniform_def demo_draws demo_tape_def
        vx1_def vx2_def vy1_def vy2_def margin_def)
  have c: "choice [9 / 10, 11 / 10, 13 / 10 :: real] (demo_rng\<lparr>pos := 3\<rparr>) =
      (13 / 10, demo_rng\<lparr>pos := 4\<rparr>)"
    by (simp add: choice_def demo_draws demo_tape_def)
  have "place_transformer_loop (Suc 3999) \<lparr>comps = [], cmds = [], occupied = []\<rparr>
      (demo_rng\<lparr>pos := Suc 0\<rparr>) =
     (Inr (commit_transformer 0 0 (13 / 10) (0 - 22 / 10, 0 - 22 / 10, 0 + 22 / 10, 0 + 22 / 10)
             \<lparr>comps = [], cmds = [], occupied = []\<rparr>), demo_rng\<lparr>pos := 4\<rparr>)"
    by (rule place_transformer_accept_eq [OF s _ c]) simp
  then show ?thesis by (simp add: place_transformer_node_def)
qed

lemma demo_place_AC1:
  assumes "occupied st = [(- (11 / 5), - (11 / 5), 11 / 5, 11 / 5)]"
  shows "place_two_pin c t e l st (demo_rng\<lparr>pos := 4\<rparr>) =
     (Inr (commit_two_pin c t e l ''h'' (4 / 5) (- (4 / 5), 17 / 5) (4 / 5, 17 / 5)
             (- (8 / 5), 17 / 5) (8 / 5, 17 / 5)
             (- (49 / 20), 51 / 20, 49 / 20, 17 / 4) st),
      demo_rng\<lparr>pos := 14\<rparr>)"
proof -
  have "place_two_pin_loop (Suc (Suc 3998)) c t e l st (demo_rng\<lparr>pos := 4\<rparr>) =
      place_two_pin_loop (Suc 3998) c t e l st (demo_rng\<lparr>pos := 9\<rparr>)"
    by (rule place_two_pin_reject_eq [OF demo_sample_0 demo_box_0]) (simp add: assms)
  also have "\<dots> =
     (Inr (commit_two_pin c t e l ''h'' (4 / 5) (- (4 / 5), 17 / 5) (4 / 5, 17 / 5)
             (- (8 / 5), 17 / 5) (8 / 5, 17 / 5)
             (- (49 / 20), 51 / 20, 49 / 20, 17 / 4) st),
      demo_rng\<lparr>pos := 14\<rparr>)"
    by (rule place_two_pin_accept_eq [OF demo_sample_1 demo_box_1]) (simp add: assms)
  finally show ?thesis by (simp add: place_two_pin_def)
qed

lemma demo_place_BAT1:
  assumes "occupied st = [(- (11 / 5), - (11 / 5), 11 / 5, 11 / 5), (- (49 / 20), 51 / 20, 49 / 20, 17 / 4)]"
  shows "place_two_pin c t e l st (demo_rng\<lparr>pos := 14\<rparr>) =
     (Inr (commit_two_pin c t e l ''h'' (4 / 5) (- (31 / 5), - (119 / 20)) (- (23 / 5), - (119 / 20))
             (- 7, - (119 / 20)) (- (19 / 5), - (119 / 20))
             (- (157 / 20), - (34 / 5), - (59 / 20), - (51 / 10)) st),
      demo_rng\<lparr>pos := 19\<rparr>)"
proof -
  have "place_two_pin_loop (Suc 3999) c t e l st (demo_rng\<lparr>pos := 14\<rparr>) =
     (Inr (commit_two_pin c t e l ''h'' (4 / 5) (- (31 / 5), - (119 / 20)) (- (23 / 5), - (119 / 20))
             (- 7, - (119 / 20)) (- (19 / 5), - (119 / 20))
             (- (157 / 20), - (34 / 5), - (59 / 20), - (51 / 10)) st),
      demo_rng\<lparr>pos := 19\<rparr>)"
    by (rule place_two_pin_accept_eq [OF demo_sample_2 demo_box_2]) (simp add: assms)
  then show ?thesis by (simp add: place_two_pin_def)
qed

lemma demo_place_C1:
  assumes "occupied st = [(- (11 / 5), - (11 / 5), 11 / 5, 11 / 5), (- (49 / 20), 51 / 20, 49 / 20, 17 / 4), (- (157 / 20), - (34 / 5), - (59 / 20), - (51 / 10))]"
  shows "place_two_pin c t e l st (demo_rng\<lparr>pos := 19\<rparr>) =
     (Inr (commit_two_pin c t e l ''h'' (4 / 5) (- (4 / 5), - (119 / 20)) (4 / 5, - (119 / 20))
             (- (8 / 5), - (119 / 20)) (8 / 5, - (119 / 20))
             (- (49 / 20), - (34 / 5), 49 / 20, - (51 / 10)) st),
      demo_rng\<lparr>pos := 24\<rparr>)"
proof -
  have "place_two_pin_loop (Suc 3999) c t e l st (demo_rng\<lparr>pos := 19\<rparr>) =
     (Inr (commit_two_pin c t e l ''h'' (4 / 5) (- (4 / 5), - (119 / 20)) (4 / 5, - (119 / 20))
             (- (8 / 5), - (119 / 20)) (8 / 5, - (119 / 20))
             (- (49 / 20), - (34 / 5), 49 / 20, - (51 / 10)) st),
      demo_rng\<lparr>pos := 24\<rparr>)"
    by (rule place_two_pin_accept_eq [OF demo_sample_3 demo_box_3]) (simp add: assms)
  then show ?thesis by (simp add: place_two_pin_def)
qed

lemma demo_place_D1:
  assumes "occupied st = [(- (11 / 5), - (11 / 5), 11 / 5, 11 / 5), (- (49 / 20), 51 / 20, 49 / 20, 17 / 4), (- (157 / 20), - (34 / 5), - (59 / 20), - (51 / 10)), (- (49 / 20), - (34 / 5), 49 / 20, - (51 / 10))]"
  shows "place_two_pin c t e l st (demo_rng\<lparr>pos := 24\<rparr>) =
     (Inr (commit_two_pin c t e l ''h'' (4 / 5) (23 / 5, - (119 / 20)) (31 / 5, - (119 / 20))
             (19 / 5, - (119 / 20)) (7, - (119 / 20))
             (59 / 20, - (34 / 5), 157 / 20, - (51 / 10)) st),
      demo_rng\<lparr>pos := 29\<rparr>)"
proof -
  have "place_two_pin_loop (Suc 3999) c t e l st (demo_rng\<lparr>pos := 24\<rparr>) =
     (Inr (commit_two_pin c t e l ''h'' (4 / 5) (23 / 5, - (119 / 20)) (31 / 5, - (119 / 20))
             (19 / 5, - (119 / 20)) (7, - (119 / 20))
             (59 / 20, - (34 / 5), 157 / 20, - (51 / 10)) st),
      demo_rng\<lparr>pos := 29\<rparr>)"
    by (rule place_two_pin_accept_eq [OF demo_sample_4 demo_box_4]) (simp add: assms)
  then show ?thesis by (simp add: place_two_pin_def)
qed

lemma demo_place_V1:
  assumes "occupied st = [(- (11 / 5), - (11 / 5), 11 / 5, 11 / 5), (- (49 / 20), 51 / 20, 49 / 20, 17 / 4), (- (157 / 20), - (34 / 5), - (59 / 20), - (51 / 10)), (- (49 / 20), - (34 / 5), 49 / 20, - (51 / 10)), (59 / 20, - (34 / 5), 157 / 20, - (51 / 10))]"
  shows "place_two_pin c t e l st (demo_rng\<lparr>pos := 29\<rparr>) =
     (Inr (commit_two_pin c t e l ''h'' (4 / 5) (- (31 / 5), - (17 / 5)) (- (23 / 5), - (17 / 5))
             (- 7, - (17 / 5)) (- (19 / 5), - (17 / 5))
             (- (157 / 20), - (17 / 4), - (59 / 20), - (51 / 20)) st),
      demo_rng\<lparr>pos := 34\<rparr>)"
proof -
  have "place_two_pin_loop (Suc 3999) c t e l st (demo_rng\<lparr>pos := 29\<rparr>) =
     (Inr (commit_two_pin c t e l ''h'' (4 / 5) (- (31 / 5), - (17 / 5)) (- (23 / 5), - (17 / 5))
             (- 7, - (17 / 5)) (- (19 / 5), - (17 / 5))
             (- (157 / 20), - (17 / 4), - (59 / 20), - (51 / 20)) st),
      demo_rng\<lparr>pos := 34\<rparr>)"
    by (rule place_two_pin_accept_eq [OF demo_sample_5 demo_box_5]) (simp add: assms)
  then show ?thesis by (simp add: place_two_pin_def)
qed

lemma demo_place_L1:
  assumes "occupied st = [(- (11 / 5), - (11 / 5), 11 / 5, 11 / 5), (- (49 / 20), 51 / 20, 49 / 20, 17 / 4), (- (157 / 20), - (34 / 5), - (59 / 20), - (51 / 10)), (- (49 / 20), - (34 / 5), 49 / 20, - (51 / 10)), (59 / 20, - (34 / 5), 157 / 20, - (51 / 10)), (- (157 / 20), - (17 / 4), - (59 / 20), - (51 / 20))]"
  shows "place_two_pin c t e l st (demo_rng\<lparr>pos := 34\<rparr>) =
     (Inr (commit_two_pin c t e l ''h'' (4 / 5) (- (4 / 5), - (17 / 5)) (4 / 5, - (17 / 5))
             (- (8 / 5), - (17 / 5)) (8 / 5, - (17 / 5))
             (- (49 / 20), - (17 / 4), 49 / 20, - (51 / 20)) st),
      demo_rng\<lparr>pos := 39\<rparr>)"
proof -
  have "place_two_pin_loop (Suc 3999) c t e l st (demo_rng\<lparr>pos := 34\<rparr>) =
     (Inr (commit_two_pin c t e l ''h'' (4 / 5) (- (4 / 5), - (17 / 5)) (4 / 5, - (17 / 5))
             (- (8 / 5), - (17 / 5)) (8 / 5, - (17 / 5))
             (- (49 / 20), - (17 / 4), 49 / 20, - (51 / 20)) st),
      demo_rng\<lparr>pos := 39\<rparr>)"
    by (rule place_two_pin_accept_eq [OF demo_sample_6 demo_box_6]) (simp add: assms)
  then show ?thesis by (simp add: place_two_pin_def)
qed

lemma demo_place_I1:
  assumes "occupied st = [(- (11 / 5), - (11 / 5), 11 / 5, 11 / 5), (- (49 / 20), 51 / 20, 49 / 20, 17 / 4), (- (157 / 20), - (34 / 5), - (59 / 20), - (51 / 10)), (- (49 / 20), - (34 / 5), 49 / 20, - (51 / 10)), (59 / 20, - (34 / 5), 157 / 20, - (51 / 10)), (- (157 / 20), - (17 / 4), - (59 / 20), - (51 / 20)), (- (49 / 20), - (17 / 4), 49 / 20, - (51 / 20))]"
  shows "place_two_pin c t e l st (demo_rng\<lparr>pos := 39\<rparr>) =
     (Inr (commit_two_pin c t e l ''h'' (4 / 5) (23 / 5, - (17 / 5)) (31 / 5, - (17 / 5))
             (19 / 5, - (17 / 5)) (7, - (17 / 5))
             (59 / 20, - (17 / 4), 157 / 20, - (51 / 20)) st),
      demo_rng\<lparr>pos := 44\<rparr>)"
proof -
  have "place_two_pin_loop (Suc 3999) c t e l st (demo_rng\<lparr>pos := 39\<rparr>) =
     (Inr (commit_two_pin c t e l ''h'' (4 / 5) (23 / 5, - (17 / 5)) (31 / 5, - (17 / 5))
             (19 / 5, - (17 / 5)) (7, - (17 / 5))
             (59 / 20, - (17 / 4), 157 / 20, - (51 / 20)) st),
      demo_rng\<lparr>pos := 44\<rparr>)"
    by (rule place_two_pin_accept_eq [OF demo_sample_7 demo_box_7]) (simp add: assms)
  then show ?thesis by (simp add: place_two_pin_def)
qed

lemma demo_place_SW_ID:
  assumes "occupied st = [(- (11 / 5), - (11 / 5), 11 / 5, 11 / 5), (- (49 / 20), 51 / 20, 49 / 20, 17 / 4), (- (157 / 20), - (34 / 5), - (59 / 20), - (51 / 10)), (- (49 / 20), - (34 / 5), 49 / 20, - (51 / 10)), (59 / 20, - (34 / 5), 157 / 20, - (51 / 10)), (- (157 / 20), - (17 / 4), - (59 / 20), - (51 / 20)), (- (49 / 20), - (17 / 4), 49 / 20, - (51 / 20)), (59 / 20, - (17 / 4), 157 / 20, - (51 / 20))]"
  shows "place_two_pin c t e l st (demo_rng\<lparr>pos := 44\<rparr>) =
     (Inr (commit_two_pin c t e l ''h'' (4 / 5) (- (31 / 5), 119 / 20) (- (23 / 5), 119 / 20)
             (- 7, 119 / 20) (- (19 / 5), 119 / 20)
             (- (157 / 20), 51 / 10, - (59 / 20), 34 / 5) st),
      demo_rng\<lparr>pos := 49\<rparr>)"
proof -
  have "place_two_pin_loop (Suc 3999) c t e l st (demo_rng\<lparr>pos := 44\<rparr>) =
     (Inr (commit_two_pin c t e l ''h'' (4 / 5) (- (31 / 5), 119 / 20) (- (23 / 5), 119 / 20)
             (- 7, 119 / 20) (- (19 / 5), 119 / 20)
             (- (157 / 20), 51 / 10, - (59 / 20), 34 / 5) st),
      demo_rng\<lparr>pos := 49\<rparr>)"
    by (rule place_two_pin_accept_eq [OF demo_sample_8 demo_box_8]) (simp add: assms)
  then show ?thesis by (simp add: place_two_pin_def)
qed

lemma demo_place_SW_R:
  assumes "occupied st = [(- (11 / 5), - (11 / 5), 11 / 5, 11 / 5), (- (49 / 20), 51 / 20, 49 / 20, 17 / 4), (- (157 / 20), - (34 / 5), - (59 / 20), - (51 / 10)), (- (49 / 20), - (34 / 5), 49 / 20, - (51 / 10)), (59 / 20, - (34 / 5), 157 / 20, - (51 / 10)), (- (157 / 20), - (17 / 4), - (59 / 20), - (51 / 20)), (- (49 / 20), - (17 / 4), 49 / 20, - (51 / 20)), (59 / 20, - (17 / 4), 157 / 20, - (51 / 20)), (- (157 / 20), 51 / 10, - (59 / 20), 34 / 5)]"
  shows "place_two_pin c t e l st (demo_rng\<lparr>pos := 49\<rparr>) =
     (Inr (commit_two_pin c t e l ''h'' (4 / 5) (- (4 / 5), 119 / 20) (4 / 5, 119 / 20)
             (- (8 / 5), 119 / 20) (8 / 5, 119 / 20)
             (- (49 / 20), 51 / 10, 49 / 20, 34 / 5) st),
      demo_rng\<lparr>pos := 54\<rparr>)"
proof -
  have "place_two_pin_loop (Suc 3999) c t e l st (demo_rng\<lparr>pos := 49\<rparr>) =
     (Inr (commit_two_pin c t e l ''h'' (4 / 5) (- (4 / 5), 119 / 20) (4 / 5, 119 / 20)
             (- (8 / 5), 119 / 20) (8 / 5, 119 / 20)
             (- (49 / 20), 51 / 10, 49 / 20, 34 / 5) st),
      demo_rng\<lparr>pos := 54\<rparr>)"
    by (rule place_two_pin_accept_eq [OF demo_sample_9 demo_box_9]) (simp add: assms)
  then show ?thesis by (simp add: place_two_pin_def)
qed

lemma demo_place_R1:
  assumes "occupied st = [(- (11 / 5), - (11 / 5), 11 / 5, 11 / 5), (- (49 / 20), 51 / 20, 49 / 20, 17 / 4), (- (157 / 20), - (34 / 5), - (59 / 20), - (51 / 10)), (- (49 / 20), - (34 / 5), 49 / 20, - (51 / 10)), (59 / 20, - (34 / 5), 157 / 20, - (51 / 10)), (- (157 / 20), - (17 / 4), - (59 / 20), - (51 / 20)), (- (49 / 20), - (17 / 4), 49 / 20, - (51 / 20)), (59 / 20, - (17 / 4), 157 / 20, - (51 / 20)), (- (157 / 20), 51 / 10, - (59 / 20), 34 / 5), (- (49 / 20), 51 / 10, 49 / 20, 34 / 5)]"
  shows "place_two_pin c t e l st (demo_rng\<lparr>pos := 54\<rparr>) =
     (Inr (commit_two_pin c t e l ''v'' (6 / 5) (- (33 / 5), 1 / 40) (- (33 / 5), 89 / 40)
             (- (33 / 5), - (47 / 40)) (- (33 / 5), 137 / 40)
             (- (149 / 20), - (81 / 40), - (23 / 4), 171 / 40) st),
      demo_rng\<lparr>pos := 59\<rparr>)"
proof -
  have "place_two_pin_loop (Suc 3999) c t e l st (demo_rng\<lparr>pos := 54\<rparr>) =
     (Inr (commit_two_pin c t e l ''v'' (6 / 5) (- (33 / 5), 1 / 40) (- (33 / 5), 89 / 40)
             (- (33 / 5), - (47 / 40)) (- (33 / 5), 137 / 40)
             (- (149 / 20), - (81 / 40), - (23 / 4), 171 / 40) st),
      demo_rng\<lparr>pos := 59\<rparr>)"
    by (rule place_two_pin_accept_eq [OF demo_sample_10 demo_box_10]) (simp add: assms)
  then show ?thesis by (simp add: place_two_pin_def)
qed

lemma demo_bipoles:
  "place_bipoles component_specs
     (commit_transformer 0 0 (13 / 10) (- (11 / 5), - (11 / 5), 11 / 5, 11 / 5)
        \<lparr>comps = [], cmds = [], occupied = []\<rparr>) (demo_rng\<lparr>pos := 4\<rparr>) =
   (Inr \<lparr>comps = demo_comps, cmds = demo_cmds, occupied = demo_occupied\<rparr>,
    demo_rng\<lparr>pos := 59\<rparr>)"
  by (simp add: component_specs_def demo_place_AC1 demo_place_BAT1 demo_place_C1 demo_place_D1 demo_place_V1 demo_place_L1 demo_place_I1 demo_place_SW_ID demo_place_SW_R demo_place_R1)
     (simp add: commit_two_pin_def commit_transformer_def demo_comps_def demo_cmds_def
        demo_occupied_def)

lemma demo_run:
  "generate_scene_with_leads demo_rng =
     (Inr (LineWidth 1, demo_body, demo_comps, demo_markers), demo_rng\<lparr>pos := 63\<rparr>)"
proof -
  have c: "choice [8 / 10, 1, 12 / 10 :: real] demo_rng = (1, demo_rng\<lparr>pos := Suc 0\<rparr>)"
    by (simp add: choice_def demo_draws demo_tape_def) (simp add: demo_rng_def)
  have m: "add_motifs (LineWidth 1)
      \<lparr>comps = demo_comps, cmds = demo_cmds, occupied = demo_occupied\<rparr>
      (demo_rng\<lparr>pos := 59\<rparr>) =
     ((LineWidth 1, demo_body, demo_comps, demo_markers), demo_rng\<lparr>pos := 63\<rparr>)"
    by (simp add: add_motifs_def Let_def uniform_def demo_draws demo_tape_def tikz_junction_def
        tikz_wire_jump_def vx1_def vx2_def vy1_def vy2_def margin_def
        demo_body_def demo_markers_def)
  show ?thesis
    unfolding generate_scene_with_leads_def c
    by (simp add: demo_transformer demo_bipoles m)
qed

section \<open>The properties on the demo scene\<close>

lemma demo_unit_tape: "unit_tape demo_rng"
proof -
  have all: "\<forall>p \<in> set demo_tape. 0 \<le> snd p \<and> snd p \<le> 1" by (simp add: demo_tape_def)
  have "0 \<le> units demo_rng n \<and> units demo_rng n \<le> 1" for n
  proof (cases "n < length demo_tape")
    case True
    then have "demo_tape ! n \<in> set demo_tape" by simp
    then show ?thesis using all True by (simp add: demo_draws)
  next
    case False
    then show ?thesis by (simp add: demo_draws)
  qed
  then show ?thesis by (simp add: unit_tape_def)
qed

text \<open>
  The scene built from the demo tape, against C1 as it is worded: the transformer's
  recorded points padded by \<open>0.85\<close> reach \<open>y = 2.75\<close>, beyond the footprint of
  half-extent \<open>2.2\<close> that was committed for it, and the padded box of \<open>AC1\<close> starts at
  \<open>y = 2.55\<close>. The two padded boxes overlap, under the tolerance and without it.
\<close>

theorem padded_boxes_overlap:
  "fst (generate_scene_with_leads demo_rng) = Inr (LineWidth 1, demo_body, demo_comps, demo_markers)
   \<and> ctype (demo_comps ! 0) = ''Transformer'' \<and> ctype (demo_comps ! 1) = ''ACSource''
   \<and> rect_from_points (recorded_points (demo_comps ! 0)) pad
        = Inr (- (49 / 20), - (11 / 4), 49 / 20, 11 / 4)
   \<and> rect_from_points (recorded_points (demo_comps ! 1)) pad
        = Inr (- (49 / 20), 51 / 20, 49 / 20, 17 / 4)
   \<and> rects_overlap (- (49 / 20), - (11 / 4), 49 / 20, 11 / 4)
        (- (49 / 20), 51 / 20, 49 / 20, 17 / 4) (15 / 100)
   \<and> rects_overlap (- (49 / 20), - (11 / 4), 49 / 20, 11 / 4)
        (- (49 / 20), 51 / 20, 49 / 20, 17 / 4) 0"
  by (simp add: demo_run demo_comps_def recorded_points_def attr_points_def
      rect_from_points_def py_min_def py_max_def pad_def)

theorem occupied_regions_clear_witness:
  "\<not> rects_overlap (occupied_region (demo_comps ! 1)) (occupied_region (demo_comps ! 0)) (15 / 100)
   \<and> occupied_region (demo_comps ! 0) = footprint (demo_comps ! 0)
   \<and> footprint (demo_comps ! 0) = (- (11 / 5), - (11 / 5), 11 / 5, 11 / 5)
   \<and> rect_from_points (recorded_points (demo_comps ! 1)) pad = Inr (occupied_region (demo_comps ! 1))"
proof -
  have len: "1 < length demo_comps" "0 < length demo_comps" by (simp_all add: demo_comps_def)
  have fp: "footprint (demo_comps ! 0) = (- (11 / 5), - (11 / 5), 11 / 5, 11 / 5)"
    by (simp add: demo_comps_def footprint_def)
  have "(1::nat) \<noteq> 0" "(0::nat) < 1" by simp_all
  with occupied_regions_clear [OF demo_run len this(1)] fp show ?thesis by blast
qed

theorem scene_within_canvas_witness:
  "unit_tape demo_rng
   \<and> list_all (\<lambda>c. in_canvas (p1 c) \<and> in_canvas (p2 c)
                    \<and> list_all in_canvas (attr_points (attrs c))) demo_comps
   \<and> list_all (\<lambda>m. in_canvas (center m)) demo_markers
   \<and> attr_points (attrs (demo_comps ! 1)) = [(- (8 / 5), 17 / 5), (8 / 5, 17 / 5)]"
proof -
  have "attr_points (attrs (demo_comps ! 1)) = [(- (8 / 5), 17 / 5), (8 / 5, 17 / 5)]"
    by (simp add: demo_comps_def attr_points_def)
  then show ?thesis
    using scene_within_canvas [OF demo_unit_tape demo_run] demo_unit_tape
    by (simp add: list_all_iff)
qed

theorem scene_complete_witness:
  "length demo_comps = 11 \<and> length demo_markers = 2
   \<and> map mtype demo_markers = [''junction'', ''wire_jump'']"
  using scene_complete [OF demo_run] by simp

theorem transformer_first_witness:
  "cid (hd demo_comps) = ''T1'' \<and> ctype (hd demo_comps) = ''Transformer''
   \<and> map cid (tl demo_comps) =
       [''AC1'', ''BAT1'', ''C1'', ''D1'', ''V1'', ''L1'', ''I1'', ''SW_ID'', ''SW_R'', ''R1'']
   \<and> hd (tl demo_body) = DrawTransformer (0, 0)"
proof -
  have "hd (tl demo_body) = DrawTransformer (0, 0)" by (simp add: demo_body_def demo_cmds_def)
  then show ?thesis using transformer_first [OF demo_run] by (simp add: component_specs_def)
qed

theorem wire_jump_fixed_witness:
  "mattrs (demo_markers ! 1) = [(''gap'', ANum (30 / 100)), (''hump_h'', ANum (30 / 100))]
   \<and> center (demo_markers ! 1) = (29 / 10, 0)
   \<and> length (filter is_hump demo_body) = 1
   \<and> last demo_body = DrawLine (29 / 10 + 30 / 100, 0) (29 / 10 + 24 / 10, 0)"
proof -
  have "center (demo_markers ! 1) = (29 / 10, 0)" by (simp add: demo_markers_def)
  moreover have "last demo_body = DrawLine (29 / 10 + 30 / 100, 0) (29 / 10 + 24 / 10, 0)"
    by (simp add: demo_body_def)
  ultimately show ?thesis using wire_jump_fixed [OF demo_run] by simp
qed

section \<open>The budgets on the constant tape\<close>


lemma const_rng_at [simp]:
  "picks const_rng n = 0" "units const_rng n = 1 / 2" "pos const_rng = 0"
  "const_rng\<lparr>pos := 0\<rparr> = const_rng"
  by (simp_all add: const_rng_def)










end
